theory Spec2Isabelle
  imports Complex_Main "HOL-Library.Sublist"
begin

section \<open>The transducer trainer of \<^verbatim>\<open>tiramisu_asr/runners/transducer_runners.py\<close>\<close>

text \<open>
  The class \<^verbatim>\<open>TransducerTrainer\<close> is glue between collaborators that live outside the
  file: the acoustic model, the loss kernel \<^verbatim>\<open>rnnt_loss\<close>, the optimizer, the
  methods inherited from \<^verbatim>\<open>BaseTrainer\<close>. Each collaborator is a parameter of
  the embedding. A method of the class is a program over the trainer's state that
  returns three things: the calls it made to its collaborators, in order; the state
  it left behind; and either the exception that ended it or its value.

  Tensors of floating-point numbers are modelled over the reals (exact arithmetic),
  integer tensors over the integers, with the wrap-around of 32-bit arithmetic written
  out where the code computes on them.
\<close>

subsection \<open>Exceptions and programs\<close>

datatype error =
    Raised string
  | KeyError string
  | AttributeError string
  | ZeroDivisionError
  | In_user_code error

type_synonym ('s, 'c, 'a) prog = "'s \<Rightarrow> 'c list \<times> 's \<times> (error + 'a)"

definition returns :: "'a \<Rightarrow> ('s, 'c, 'a) prog" where
  "returns a = (\<lambda>s. ([], s, Inr a))"

definition raise :: "error \<Rightarrow> ('s, 'c, 'a) prog" where
  "raise e = (\<lambda>s. ([], s, Inl e))"

text \<open>Sequencing: an exception ends the program, with the calls and the state so far.\<close>

definition andthen :: "('s, 'c, 'a) prog \<Rightarrow> ('a \<Rightarrow> ('s, 'c, 'b) prog) \<Rightarrow> ('s, 'c, 'b) prog" where
  "andthen m f = (\<lambda>s.
     case m s of
       (cs, s', Inl e) \<Rightarrow> (cs, s', Inl e)
     | (cs, s', Inr a) \<Rightarrow> (case f a s' of (cs', s'', r) \<Rightarrow> (cs @ cs', s'', r)))"

text \<open>A call to a collaborator that does not touch the trainer: the call is recorded,
  its outcome (an exception or a value) is the outcome of the statement.\<close>

definition extern :: "'c \<Rightarrow> error + 'a \<Rightarrow> ('s, 'c, 'a) prog" where
  "extern c r = (\<lambda>s. ([c], s, r))"

text \<open>A call to an inherited method, which may change the trainer.\<close>

definition invoke :: "'c \<Rightarrow> ('s \<Rightarrow> 's \<times> (error + 'a)) \<Rightarrow> ('s, 'c, 'a) prog" where
  "invoke c m = (\<lambda>s. case m s of (s', r) \<Rightarrow> ([c], s', r))"

text \<open>An operation of the language itself: nothing is recorded.\<close>

definition builtin :: "error + 'a \<Rightarrow> ('s, 'c, 'a) prog" where
  "builtin r = (\<lambda>s. ([], s, r))"

definition assign :: "('s \<Rightarrow> 's) \<Rightarrow> ('s, 'c, unit) prog" where
  "assign f = (\<lambda>s. ([], f s, Inr ()))"

definition calls :: "'c list \<times> 's \<times> (error + 'a) \<Rightarrow> 'c list" where
  "calls r = fst r"

definition final :: "'c list \<times> 's \<times> (error + 'a) \<Rightarrow> 's" where
  "final r = fst (snd r)"

definition outcome :: "'c list \<times> 's \<times> (error + 'a) \<Rightarrow> error + 'a" where
  "outcome r = snd (snd r)"

subsection \<open>Tensors under the gradient tape\<close>

text \<open>
  A scalar computed while the tape records is a dual number: its value, and its partial
  derivative with respect to each trainable variable (\<open>tangent d i\<close> for the
  \<open>i\<close>-th variable). \<^verbatim>\<open>tape.gradient(target, sources)\<close> reads the
  derivatives off, one per source. The operations applied under the tape act on both
  parts, by linearity of the derivative.
\<close>

record dual =
  primal :: real
  tangent :: "nat \<Rightarrow> real"

definition dual_scale :: "real \<Rightarrow> dual \<Rightarrow> dual" where
  "dual_scale c d = \<lparr>primal = primal d * c, tangent = (\<lambda>i. tangent d i * c)\<rparr>"

definition dual_div :: "dual \<Rightarrow> real \<Rightarrow> dual" where
  "dual_div d c = \<lparr>primal = primal d / c, tangent = (\<lambda>i. tangent d i / c)\<rparr>"

definition reduce_sum :: "dual list \<Rightarrow> dual" where
  "reduce_sum ds =
     \<lparr>primal = sum_list (map primal ds), tangent = (\<lambda>i. sum_list (map (\<lambda>d. tangent d i) ds))\<rparr>"

text \<open>\<^verbatim>\<open>tf.nn.compute_average_loss(per_example_loss, global_batch_size=n)\<close>:
  the sum of the per-example losses divided by \<open>n\<close>.\<close>

definition compute_average_loss :: "dual list \<Rightarrow> int \<Rightarrow> dual" where
  "compute_average_loss per_example_loss n = dual_div (reduce_sum per_example_loss) (real_of_int n)"

definition tape_gradient :: "dual \<Rightarrow> real list \<Rightarrow> real list" where
  "tape_gradient target sources = map (tangent target) [0..<length sources]"

text \<open>
  The lengths are tensors of 32-bit signed integers. \<open>int32 x\<close> is the value the
  integer \<open>x\<close> has as such a number (it wraps around), and \<open>in_int32 x\<close> says that
  \<open>x\<close> is one.
\<close>

definition int32 :: "int \<Rightarrow> int" where
  "int32 x = (x + 2 ^ 31) mod 2 ^ 32 - 2 ^ 31"

definition in_int32 :: "int \<Rightarrow> bool" where
  "in_int32 x \<longleftrightarrow> - (2 ^ 31) \<le> x \<and> x < 2 ^ 31"

text \<open>\<open>x // d\<close> on a tensor of 32-bit integers and an integer: the integer becomes a
  32-bit integer, and each element is floor-divided by it, in 32 bits; dividing an element by
  zero is an error of the framework.\<close>

definition floordiv :: "int list \<Rightarrow> int \<Rightarrow> error + int list" where
  "floordiv xs d =
     (if int32 d = 0 \<and> xs \<noteq> [] then Inl ZeroDivisionError
      else Inr (map (\<lambda>x. int32 (int32 x div int32 d)) xs))"

subsection \<open>The running mean \<^verbatim>\<open>tf.keras.metrics.Mean\<close>\<close>

datatype dtype = Float16 | Float32 | Float64

record mean_metric =
  metric_name :: string
  metric_dtype :: dtype
  total_sum :: real
  count_seen :: nat

definition Mean :: "string \<Rightarrow> dtype \<Rightarrow> mean_metric" where
  "Mean n d = \<lparr>metric_name = n, metric_dtype = d, total_sum = 0, count_seen = 0\<rparr>"

definition update_state :: "mean_metric \<Rightarrow> real list \<Rightarrow> mean_metric" where
  "update_state m vs = m\<lparr>total_sum := total_sum m + sum_list vs, count_seen := count_seen m + length vs\<rparr>"

definition result :: "mean_metric \<Rightarrow> real" where
  "result m = (if count_seen m = 0 then 0 else total_sum m / real (count_seen m))"

subsection \<open>Optimizers\<close>

text \<open>
  An optimizer is a Keras optimizer (its state is opaque), or a
  \<^verbatim>\<open>LossScaleOptimizer\<close> around an optimizer, made from a loss-scale specification
  and holding the current loss scale. Only the latter has \<^verbatim>\<open>get_scaled_loss\<close>
  (the loss times the loss scale) and \<^verbatim>\<open>get_unscaled_gradients\<close> (each
  gradient times the reciprocal of the loss scale).
\<close>

datatype 'o optimizer =
    Keras 'o
  | LossScaleOptimizer "'o optimizer" string real

fun get_scaled_loss :: "'o optimizer \<Rightarrow> dual \<Rightarrow> error + dual" where
  "get_scaled_loss (LossScaleOptimizer inner spec scale) loss = Inr (dual_scale scale loss)"
| "get_scaled_loss (Keras inner) loss = Inl (AttributeError ''get_scaled_loss'')"

fun get_unscaled_gradients :: "'o optimizer \<Rightarrow> real list \<Rightarrow> error + real list" where
  "get_unscaled_gradients (LossScaleOptimizer inner spec scale) grads =
     Inr (map (\<lambda>g. g * (1 / scale)) grads)"
| "get_unscaled_gradients (Keras inner) grads = Inl (AttributeError ''get_unscaled_gradients'')"

text \<open>\<^verbatim>\<open>mixed_precision.LossScaleOptimizer(opt, "dynamic")\<close>: a dynamic loss scale
  starts at \<open>2 ^ 15\<close>.\<close>

definition dynamic_LossScaleOptimizer :: "'o optimizer \<Rightarrow> 'o optimizer" where
  "dynamic_LossScaleOptimizer inner = LossScaleOptimizer inner ''dynamic'' (2 ^ 15)"

subsection \<open>The model, the batch and the trainer\<close>

text \<open>
  Of the model the trainer uses: the forward pass (a function of the current values of
  the trainable variables, the two inputs and the training flag),
  \<^verbatim>\<open>summary\<close>, \<^verbatim>\<open>time_reduction_factor\<close> and
  \<^verbatim>\<open>trainable_variables\<close>.
\<close>

record ('f, 'p, 'l) transducer =
  call :: "real list \<Rightarrow> 'f \<Rightarrow> 'p \<Rightarrow> bool \<Rightarrow> error + 'l"
  summary :: "int \<Rightarrow> error + unit"
  time_reduction_factor :: int
  trainable_variables :: "real list"

record text_featurizer =
  blank :: int

record ('f, 'p) batch =
  path :: "string list"
  features :: 'f
  input_length :: "int list"
  labels :: "int list list"
  label_length :: "int list"
  pred_inp :: 'p

text \<open>The fields of \<^verbatim>\<open>TransducerTrainer\<close>; \<open>base\<close> stands for what
  \<^verbatim>\<open>BaseTrainer\<close> keeps (configuration, strategy, data loaders, checkpoints).\<close>

record ('f, 'p, 'l, 'o, 'b) trainer =
  base :: 'b
  global_batch_size :: int
  text_featurizer :: text_featurizer
  is_mixed_precision :: bool
  model :: "('f, 'p, 'l) transducer"
  optimizer :: "'o optimizer"
  train_metrics :: "string \<rightharpoonup> mean_metric"
  eval_metrics :: "string \<rightharpoonup> mean_metric"

subsection \<open>The metrics\<close>

definition set_train_metrics ::
  "('f, 'p, 'l, 'o, 'b) trainer \<Rightarrow> ('f, 'p, 'l, 'o, 'b) trainer" where
  "set_train_metrics t =
     t\<lparr>train_metrics := [''transducer_loss'' \<mapsto> Mean ''train_transducer_loss'' Float32]\<rparr>"

definition set_eval_metrics ::
  "('f, 'p, 'l, 'o, 'b) trainer \<Rightarrow> ('f, 'p, 'l, 'o, 'b) trainer" where
  "set_eval_metrics t =
     t\<lparr>eval_metrics := [''transducer_loss'' \<mapsto> Mean ''eval_transducer_loss'' Float32]\<rparr>"

subsection \<open>The decorator \<^verbatim>\<open>tf.function\<close>\<close>

text \<open>
  Both steps are decorated with \<^verbatim>\<open>@tf.function(experimental_relax_shapes=True)\<close>:
  a call traces the body of the method into a graph and then runs the graph. A run that
  returns is the run of the body. An exception raised while the body is traced does not
  reach the caller as it is: the decorator raises a new exception made from it, with a
  rewritten message (\<open>In_user_code\<close>); the graph has not run then, so the trainer is
  as it was before the call. The error of an operation of the graph, here the integer
  division by zero, is raised when the graph runs and reaches the caller as it is; the
  operations that change the trainer need its result and have not run.
\<close>

fun autograph :: "error \<Rightarrow> error" where
  "autograph ZeroDivisionError = ZeroDivisionError"
| "autograph e = In_user_code e"

definition tf_function :: "('s, 'c, 'a) prog \<Rightarrow> ('s, 'c, 'a) prog" where
  "tf_function body = (\<lambda>s.
     case body s of
       (cs, s', Inl e) \<Rightarrow> (cs, s, Inl (autograph e))
     | (cs, s', Inr a) \<Rightarrow> (cs, s', Inr a))"

subsection \<open>The train step and the eval step\<close>

text \<open>\<open>train_step_body\<close> and \<open>eval_step_body\<close> are the bodies of
  \<^verbatim>\<open>_train_step\<close> and \<^verbatim>\<open>_eval_step\<close>; \<open>train_step\<close> and
  \<open>eval_step\<close>, below them, are the decorated methods.\<close>

datatype ('f, 'p, 'l) step_call =
    Model_call 'f 'p bool
  | Tape_watch 'l
  | Rnnt_loss 'l "int list list" "int list" "int list" int
  | Compute_average_loss "dual list" int
  | Get_scaled_loss dual
  | Tape_gradient dual "real list"
  | Get_unscaled_gradients "real list"
  | Apply_gradients "(real \<times> real) list"
  | Update_state string "real list"

type_synonym ('f, 'p, 'l, 'o, 'b) step =
  "(('f, 'p, 'l, 'o, 'b) trainer, ('f, 'p, 'l) step_call, unit) prog"

text \<open>\<^verbatim>\<open>self.train_metrics["transducer_loss"].update_state(values)\<close>\<close>

definition update_train_metric :: "real list \<Rightarrow> ('f, 'p, 'l, 'o, 'b) step" where
  "update_train_metric values = (\<lambda>t.
     case train_metrics t ''transducer_loss'' of
       None \<Rightarrow> ([], t, Inl (KeyError ''transducer_loss''))
     | Some m \<Rightarrow>
         ([Update_state (metric_name m) values],
          t\<lparr>train_metrics := (train_metrics t)(''transducer_loss'' \<mapsto> update_state m values)\<rparr>,
          Inr ()))"

text \<open>\<^verbatim>\<open>self.eval_metrics["transducer_loss"].update_state(values)\<close>\<close>

definition update_eval_metric :: "real list \<Rightarrow> ('f, 'p, 'l, 'o, 'b) step" where
  "update_eval_metric values = (\<lambda>t.
     case eval_metrics t ''transducer_loss'' of
       None \<Rightarrow> ([], t, Inl (KeyError ''transducer_loss''))
     | Some m \<Rightarrow>
         ([Update_state (metric_name m) values],
          t\<lparr>eval_metrics := (eval_metrics t)(''transducer_loss'' \<mapsto> update_state m values)\<rparr>,
          Inr ()))"

text \<open>Lines 65 to 72 of the train step: the gradients of the average loss, through the
  loss scale when \<^verbatim>\<open>is_mixed_precision\<close> is set.\<close>

definition gradients_of ::
  "bool \<Rightarrow> 'o optimizer \<Rightarrow> dual \<Rightarrow> real list \<Rightarrow>
   (('f, 'p, 'l, 'o, 'b) trainer, ('f, 'p, 'l) step_call, real list) prog" where
  "gradients_of mixed opt train_loss variables =
     (if mixed then
        andthen (case get_scaled_loss opt train_loss of
                   Inl e \<Rightarrow> raise e
                 | Inr scaled \<Rightarrow> extern (Get_scaled_loss train_loss) (Inr scaled))
          (\<lambda>scaled_train_loss.
        andthen (extern (Tape_gradient scaled_train_loss variables)
                   (Inr (tape_gradient scaled_train_loss variables)))
          (\<lambda>scaled_gradients.
        extern (Get_unscaled_gradients scaled_gradients)
          (get_unscaled_gradients opt scaled_gradients)))
      else
        extern (Tape_gradient train_loss variables) (Inr (tape_gradient train_loss variables)))"

definition train_step_body ::
  "('l \<Rightarrow> int list list \<Rightarrow> int list \<Rightarrow> int list \<Rightarrow> int \<Rightarrow> error + dual list) \<Rightarrow>
   ('o optimizer \<Rightarrow> (real \<times> real) list \<Rightarrow> error + 'o optimizer \<times> real list) \<Rightarrow>
   ('f, 'p) batch \<Rightarrow> ('f, 'p, 'l, 'o, 'b) step" where
  "train_step_body rnnt_loss apply_gradients b = (\<lambda>t.
     (andthen (extern (Model_call (features b) (pred_inp b) True)
                 (call (model t) (trainable_variables (model t)) (features b) (pred_inp b) True))
        (\<lambda>logits.
      andthen (extern (Tape_watch logits) (Inr ()))
        (\<lambda>_.
      andthen (builtin (floordiv (input_length b) (time_reduction_factor (model t))))
        (\<lambda>logit_length.
      andthen (extern (Rnnt_loss logits (labels b) (label_length b) logit_length
                         (blank (text_featurizer t)))
                 (rnnt_loss logits (labels b) (label_length b) logit_length
                    (blank (text_featurizer t))))
        (\<lambda>per_train_loss.
      andthen (extern (Compute_average_loss per_train_loss (global_batch_size t))
                 (Inr (compute_average_loss per_train_loss (global_batch_size t))))
        (\<lambda>train_loss.
      andthen (gradients_of (is_mixed_precision t) (optimizer t) train_loss
                 (trainable_variables (model t)))
        (\<lambda>gradients.
      andthen (extern (Apply_gradients (zip gradients (trainable_variables (model t))))
                 (apply_gradients (optimizer t) (zip gradients (trainable_variables (model t)))))
        (\<lambda>applied.
      andthen (assign (\<lambda>s. s\<lparr>optimizer := fst applied,
                                model := (model s)\<lparr>trainable_variables := snd applied\<rparr>\<rparr>))
        (\<lambda>_.
      update_train_metric (map primal per_train_loss)))))))))) t)"

definition eval_step_body ::
  "('l \<Rightarrow> int list list \<Rightarrow> int list \<Rightarrow> int list \<Rightarrow> int \<Rightarrow> error + dual list) \<Rightarrow>
   ('f, 'p) batch \<Rightarrow> ('f, 'p, 'l, 'o, 'b) step" where
  "eval_step_body rnnt_loss b = (\<lambda>t.
     (andthen (extern (Model_call (features b) (pred_inp b) False)
                 (call (model t) (trainable_variables (model t)) (features b) (pred_inp b) False))
        (\<lambda>logits.
      andthen (builtin (floordiv (input_length b) (time_reduction_factor (model t))))
        (\<lambda>logit_length.
      andthen (extern (Rnnt_loss logits (labels b) (label_length b) logit_length
                         (blank (text_featurizer t)))
                 (rnnt_loss logits (labels b) (label_length b) logit_length
                    (blank (text_featurizer t))))
        (\<lambda>eval_loss.
      update_eval_metric (map primal eval_loss))))) t)"

definition train_step ::
  "('l \<Rightarrow> int list list \<Rightarrow> int list \<Rightarrow> int list \<Rightarrow> int \<Rightarrow> error + dual list) \<Rightarrow>
   ('o optimizer \<Rightarrow> (real \<times> real) list \<Rightarrow> error + 'o optimizer \<times> real list) \<Rightarrow>
   ('f, 'p) batch \<Rightarrow> ('f, 'p, 'l, 'o, 'b) step" where
  "train_step rnnt_loss apply_gradients b =
     tf_function (train_step_body rnnt_loss apply_gradients b)"

definition eval_step ::
  "('l \<Rightarrow> int list list \<Rightarrow> int list \<Rightarrow> int list \<Rightarrow> int \<Rightarrow> error + dual list) \<Rightarrow>
   ('f, 'p) batch \<Rightarrow> ('f, 'p, 'l, 'o, 'b) step" where
  "eval_step rnnt_loss b = tf_function (eval_step_body rnnt_loss b)"

subsection \<open>A trainer that is ready for a step\<close>




subsection \<open>Several steps in a row\<close>

text \<open>The steps a driver issues for a list of batches, one after the other; an
  exception in a step ends the run.\<close>

fun train_steps ::
  "('l \<Rightarrow> int list list \<Rightarrow> int list \<Rightarrow> int list \<Rightarrow> int \<Rightarrow> error + dual list) \<Rightarrow>
   ('o optimizer \<Rightarrow> (real \<times> real) list \<Rightarrow> error + 'o optimizer \<times> real list) \<Rightarrow>
   ('f, 'p) batch list \<Rightarrow> ('f, 'p, 'l, 'o, 'b) step" where
  "train_steps rnnt_loss apply_gradients [] = returns ()"
| "train_steps rnnt_loss apply_gradients (b # bs) =
     andthen (train_step rnnt_loss apply_gradients b)
       (\<lambda>_. train_steps rnnt_loss apply_gradients bs)"

fun eval_steps ::
  "('l \<Rightarrow> int list list \<Rightarrow> int list \<Rightarrow> int list \<Rightarrow> int \<Rightarrow> error + dual list) \<Rightarrow>
   ('f, 'p) batch list \<Rightarrow> ('f, 'p, 'l, 'o, 'b) step" where
  "eval_steps rnnt_loss [] = returns ()"
| "eval_steps rnnt_loss (b # bs) =
     andthen (eval_step rnnt_loss b) (\<lambda>_. eval_steps rnnt_loss bs)"

subsection \<open>Reading the calls of a step\<close>

text \<open>The values a call hands to \<^verbatim>\<open>update_state\<close>, and all values handed to it
  by a sequence of calls.\<close>

fun updated_with :: "('f, 'p, 'l) step_call \<Rightarrow> real list" where
  "updated_with (Update_state n vs) = vs"
| "updated_with _ = []"

definition seen :: "('f, 'p, 'l) step_call list \<Rightarrow> real list" where
  "seen cs = concat (map updated_with cs)"

text \<open>The pairs of gradient and variable handed to \<^verbatim>\<open>apply_gradients\<close>.\<close>

fun applied_with :: "('f, 'p, 'l) step_call \<Rightarrow> (real \<times> real) list list" where
  "applied_with (Apply_gradients gv) = [gv]"
| "applied_with _ = []"

definition applied :: "('f, 'p, 'l) step_call list \<Rightarrow> (real \<times> real) list list" where
  "applied cs = concat (map applied_with cs)"

text \<open>The calls that compute, scale or apply a gradient.\<close>

fun gradient_call :: "('f, 'p, 'l) step_call \<Rightarrow> bool" where
  "gradient_call (Get_scaled_loss l) = True"
| "gradient_call (Tape_gradient l vs) = True"
| "gradient_call (Get_unscaled_gradients gs) = True"
| "gradient_call (Apply_gradients gv) = True"
| "gradient_call _ = False"

text \<open>The arguments of a call of \<^verbatim>\<open>rnnt_loss\<close>: the logits, and the rest.\<close>

fun rnnt_logits :: "('f, 'p, 'l) step_call \<Rightarrow> 'l list" where
  "rnnt_logits (Rnnt_loss lg ls ll gl bl) = [lg]"
| "rnnt_logits _ = []"

fun rnnt_arguments ::
  "('f, 'p, 'l) step_call \<Rightarrow> (int list list \<times> int list \<times> int list \<times> int) list" where
  "rnnt_arguments (Rnnt_loss lg ls ll gl bl) = [(ls, ll, gl, bl)]"
| "rnnt_arguments _ = []"

fun model_calls :: "('f, 'p, 'l) step_call \<Rightarrow> ('f \<times> 'p \<times> bool) list" where
  "model_calls (Model_call f p training) = [(f, p, training)]"
| "model_calls _ = []"

subsection \<open>compile\<close>

datatype ('m, 'c, 'o) compile_call =
    Scope_enter
  | Scope_exit
  | Summary int
  | Optimizers_get 'c
  | New_LossScaleOptimizer "'o optimizer" string
  | Create_checkpoint_manager int 'm "'o optimizer"

text \<open>\<^verbatim>\<open>with self.strategy.scope(): body\<close>: the scope is left when the body ends,
  by an exception or not.\<close>

definition with_scope ::
  "('s, ('m, 'c, 'o) compile_call, 'a) prog \<Rightarrow> ('s, ('m, 'c, 'o) compile_call, 'a) prog" where
  "with_scope body = (\<lambda>s. case body s of (cs, s', r) \<Rightarrow> (Scope_enter # cs @ [Scope_exit], s', r))"

text \<open>
  The collaborators of \<^verbatim>\<open>compile\<close>: \<^verbatim>\<open>tf.keras.optimizers.get\<close> and the
  inherited \<^verbatim>\<open>create_checkpoint_manager\<close>.
\<close>

definition compile ::
  "('c \<Rightarrow> error + 'o optimizer) \<Rightarrow>
   (int \<Rightarrow> ('f, 'p, 'l) transducer \<Rightarrow> 'o optimizer \<Rightarrow>
      ('f, 'p, 'l, 'o, 'b) trainer \<Rightarrow> ('f, 'p, 'l, 'o, 'b) trainer \<times> (error + unit)) \<Rightarrow>
   ('f, 'p, 'l) transducer \<Rightarrow> 'c \<Rightarrow> int \<Rightarrow>
   (('f, 'p, 'l, 'o, 'b) trainer, (('f, 'p, 'l) transducer, 'c, 'o) compile_call, unit) prog" where
  "compile optimizers_get create_checkpoint_manager model_arg optimizer_arg max_to_keep =
     andthen
       (with_scope
          (andthen (assign (\<lambda>s. s\<lparr>model := model_arg\<rparr>))
             (\<lambda>_.
           andthen (\<lambda>s. extern (Summary 100) (summary (model s) 100) s)
             (\<lambda>_.
           andthen (extern (Optimizers_get optimizer_arg) (optimizers_get optimizer_arg))
             (\<lambda>got.
           andthen (assign (\<lambda>s. s\<lparr>optimizer := got\<rparr>))
             (\<lambda>_.
           (\<lambda>s. if is_mixed_precision s
                then andthen (extern (New_LossScaleOptimizer (optimizer s) ''dynamic'')
                                (Inr (dynamic_LossScaleOptimizer (optimizer s))))
                       (\<lambda>wrapped. assign (\<lambda>s. s\<lparr>optimizer := wrapped\<rparr>)) s
                else returns () s)))))))
       (\<lambda>_.
          (\<lambda>s. invoke (Create_checkpoint_manager max_to_keep (model s) (optimizer s))
                  (create_checkpoint_manager max_to_keep (model s) (optimizer s)) s))"

subsection \<open>fit\<close>

datatype 'd fit_call =
    Set_train_data_loader 'd
  | Set_eval_data_loader "'d option" int
  | Load_checkpoint
  | Run

text \<open>The four inherited methods are parameters; each may change the trainer and may
  raise.\<close>

definition fit ::
  "('d \<Rightarrow> 's \<Rightarrow> 's \<times> (error + unit)) \<Rightarrow>
   ('d option \<Rightarrow> int \<Rightarrow> 's \<Rightarrow> 's \<times> (error + unit)) \<Rightarrow>
   ('s \<Rightarrow> 's \<times> (error + unit)) \<Rightarrow>
   ('s \<Rightarrow> 's \<times> (error + unit)) \<Rightarrow>
   'd \<Rightarrow> 'd option \<Rightarrow> int \<Rightarrow> ('s, 'd fit_call, unit) prog" where
  "fit set_train_data_loader set_eval_data_loader load_checkpoint run
       train_dataset eval_dataset eval_train_ratio =
     andthen (invoke (Set_train_data_loader train_dataset) (set_train_data_loader train_dataset))
       (\<lambda>_.
     andthen (invoke (Set_eval_data_loader eval_dataset eval_train_ratio)
                (set_eval_data_loader eval_dataset eval_train_ratio))
       (\<lambda>_.
     andthen (invoke Load_checkpoint load_checkpoint)
       (\<lambda>_.
     invoke Run run)))"

subsection \<open>A small trainer to run the definitions on\<close>

definition example_model :: "(nat list, nat list, real list) transducer" where
  "example_model =
     \<lparr>call = (\<lambda>vs f p training. Inr (map (\<lambda>v. if training then v else v + 1) vs)),
      summary = (\<lambda>line_length. Inr ()),
      time_reduction_factor = 4,
      trainable_variables = [1, 2]\<rparr>"

definition example_rnnt_loss ::
  "real list \<Rightarrow> int list list \<Rightarrow> int list \<Rightarrow> int list \<Rightarrow> int \<Rightarrow> error + dual list" where
  "example_rnnt_loss logits ls ll gl bl =
     Inr (map (\<lambda>n. \<lparr>primal = real_of_int n, tangent = (\<lambda>i. real i + 1)\<rparr>) gl)"

definition example_sgd ::
  "unit optimizer \<Rightarrow> (real \<times> real) list \<Rightarrow> error + unit optimizer \<times> real list" where
  "example_sgd opt gv = Inr (opt, map (\<lambda>(g, v). v - g) gv)"

definition example_batch :: "(nat list, nat list) batch" where
  "example_batch =
     \<lparr>path = [''a'', ''b''], features = [3, 4], input_length = [7, 9],
      labels = [[1], [2, 3]], label_length = [1, 2], pred_inp = [0]\<rparr>"

definition example_trainer :: "(nat list, nat list, real list, unit, nat) trainer" where
  "example_trainer =
     set_eval_metrics (set_train_metrics
       \<lparr>base = 0, global_batch_size = 2, text_featurizer = \<lparr>blank = 0\<rparr>,
        is_mixed_precision = False, model = example_model, optimizer = Keras (),
        train_metrics = Map.empty, eval_metrics = Map.empty\<rparr>)"




definition mixed_trainer :: "(nat list, nat list, real list, unit, nat) trainer" where
  "mixed_trainer =
     example_trainer\<lparr>is_mixed_precision := True,
       optimizer := dynamic_LossScaleOptimizer (Keras ())\<rparr>"

section \<open>Running the programs\<close>

lemmas prog_defs = andthen_def extern_def builtin_def assign_def raise_def returns_def invoke_def

lemma gradients_of_plain:
  "gradients_of False opt train_loss vars s =
     ([Tape_gradient train_loss vars], s, Inr (tape_gradient train_loss vars))"
  by (simp add: gradients_of_def extern_def)

lemma gradients_of_mixed:
  "gradients_of True (LossScaleOptimizer inner spec scale) train_loss vars s =
     ([Get_scaled_loss train_loss, Tape_gradient (dual_scale scale train_loss) vars,
       Get_unscaled_gradients (tape_gradient (dual_scale scale train_loss) vars)], s,
      Inr (map (\<lambda>g. g * (1 / scale)) (tape_gradient (dual_scale scale train_loss) vars)))"
  by (simp add: gradients_of_def andthen_def extern_def)

lemma gradients_of_mixed_Keras:
  "gradients_of True (Keras inner) train_loss vars s =
     ([], s, Inl (AttributeError ''get_scaled_loss''))"
  by (simp add: gradients_of_def andthen_def raise_def)

lemma gradients_of_stateD: "gradients_of mixed opt train_loss vars s = (cs, s', r) \<Longrightarrow> s' = s"
  by (cases mixed; cases opt)
     (auto simp add: gradients_of_plain gradients_of_mixed gradients_of_mixed_Keras)

lemma eval_step_body_unfold:
  "eval_step_body rnnt_loss b t =
     (case call (model t) (trainable_variables (model t)) (features b) (pred_inp b) False of
        Inl e \<Rightarrow> ([Model_call (features b) (pred_inp b) False], t, Inl e)
      | Inr logits \<Rightarrow>
         (case floordiv (input_length b) (time_reduction_factor (model t)) of
            Inl e \<Rightarrow> ([Model_call (features b) (pred_inp b) False], t, Inl e)
          | Inr logit_length \<Rightarrow>
             (case rnnt_loss logits (labels b) (label_length b) logit_length
                     (blank (text_featurizer t)) of
                Inl e \<Rightarrow>
                  ([Model_call (features b) (pred_inp b) False,
                    Rnnt_loss logits (labels b) (label_length b) logit_length
                      (blank (text_featurizer t))], t, Inl e)
              | Inr eval_loss \<Rightarrow>
                 (case eval_metrics t ''transducer_loss'' of
                    None \<Rightarrow>
                      ([Model_call (features b) (pred_inp b) False,
                        Rnnt_loss logits (labels b) (label_length b) logit_length
                          (blank (text_featurizer t))], t, Inl (KeyError ''transducer_loss''))
                  | Some m \<Rightarrow>
                      ([Model_call (features b) (pred_inp b) False,
                        Rnnt_loss logits (labels b) (label_length b) logit_length
                          (blank (text_featurizer t)),
                        Update_state (metric_name m) (map primal eval_loss)],
                       t\<lparr>eval_metrics := (eval_metrics t)(''transducer_loss'' \<mapsto>
                            update_state m (map primal eval_loss))\<rparr>,
                       Inr ())))))"
  by (simp add: eval_step_body_def prog_defs update_eval_metric_def
      split: sum.splits option.splits)

lemma train_step_body_unfold:
  "train_step_body rnnt_loss apply_gradients b t =
     (case call (model t) (trainable_variables (model t)) (features b) (pred_inp b) True of
        Inl e \<Rightarrow> ([Model_call (features b) (pred_inp b) True], t, Inl e)
      | Inr logits \<Rightarrow>
         (case floordiv (input_length b) (time_reduction_factor (model t)) of
            Inl e \<Rightarrow> ([Model_call (features b) (pred_inp b) True, Tape_watch logits], t, Inl e)
          | Inr logit_length \<Rightarrow>
             (case rnnt_loss logits (labels b) (label_length b) logit_length
                     (blank (text_featurizer t)) of
                Inl e \<Rightarrow>
                  ([Model_call (features b) (pred_inp b) True, Tape_watch logits,
                    Rnnt_loss logits (labels b) (label_length b) logit_length
                      (blank (text_featurizer t))], t, Inl e)
              | Inr per_train_loss \<Rightarrow>
                 (case gradients_of (is_mixed_precision t) (optimizer t)
                         (compute_average_loss per_train_loss (global_batch_size t))
                         (trainable_variables (model t)) t of
                    (gcs, t', Inl e) \<Rightarrow>
                      ([Model_call (features b) (pred_inp b) True, Tape_watch logits,
                        Rnnt_loss logits (labels b) (label_length b) logit_length
                          (blank (text_featurizer t)),
                        Compute_average_loss per_train_loss (global_batch_size t)] @ gcs,
                       t, Inl e)
                  | (gcs, t', Inr gradients) \<Rightarrow>
                     (case apply_gradients (optimizer t)
                             (zip gradients (trainable_variables (model t))) of
                        Inl e \<Rightarrow>
                          ([Model_call (features b) (pred_inp b) True, Tape_watch logits,
                            Rnnt_loss logits (labels b) (label_length b) logit_length
                              (blank (text_featurizer t)),
                            Compute_average_loss per_train_loss (global_batch_size t)] @ gcs @
                           [Apply_gradients (zip gradients (trainable_variables (model t)))],
                           t, Inl e)
                      | Inr applied_to \<Rightarrow>
                         (case train_metrics t ''transducer_loss'' of
                            None \<Rightarrow>
                              ([Model_call (features b) (pred_inp b) True, Tape_watch logits,
                                Rnnt_loss logits (labels b) (label_length b) logit_length
                                  (blank (text_featurizer t)),
                                Compute_average_loss per_train_loss (global_batch_size t)] @
                               gcs @
                               [Apply_gradients (zip gradients (trainable_variables (model t)))],
                               t\<lparr>optimizer := fst applied_to,
                                 model := (model t)\<lparr>trainable_variables := snd applied_to\<rparr>\<rparr>,
                               Inl (KeyError ''transducer_loss''))
                          | Some m \<Rightarrow>
                              ([Model_call (features b) (pred_inp b) True, Tape_watch logits,
                                Rnnt_loss logits (labels b) (label_length b) logit_length
                                  (blank (text_featurizer t)),
                                Compute_average_loss per_train_loss (global_batch_size t)] @
                               gcs @
                               [Apply_gradients (zip gradients (trainable_variables (model t))),
                                Update_state (metric_name m) (map primal per_train_loss)],
                               t\<lparr>optimizer := fst applied_to,
                                 model := (model t)\<lparr>trainable_variables := snd applied_to\<rparr>,
                                 train_metrics := (train_metrics t)(''transducer_loss'' \<mapsto>
                                    update_state m (map primal per_train_loss))\<rparr>,
                               Inr ())))))))"
  by (auto simp add: train_step_body_def prog_defs update_train_metric_def
      split: sum.splits option.splits prod.splits dest: gradients_of_stateD)

lemmas ex_defs = example_trainer_def example_model_def example_batch_def example_rnnt_loss_def example_sgd_def
  set_train_metrics_def set_eval_metrics_def Mean_def

lemmas mx_defs = mixed_trainer_def dynamic_LossScaleOptimizer_def ex_defs

section \<open>The train step\<close>

text \<open>
  C1. When the model, the floor division, the loss kernel and the optimizer all return,
  and the metric is installed, the train step makes these calls, in this order: the model
  on the features and the prediction input in training mode; the RNNT loss on the logits,
  the labels, the label lengths, the logit lengths and the blank index of the text
  featurizer; the average of the per-example losses by the global batch size; the
  gradient of that average with respect to the trainable variables (of the scaled average,
  then unscaled, under mixed precision); the optimizer on those gradients paired with the
  variables; the update of the train metric with the per-example losses. It leaves the
  optimizer and the variables as the optimizer returned them.
\<close>

theorem train_step_pipeline:
  fixes t :: "('f, 'p, 'l, 'o, 'b) trainer"
  defines "vars \<equiv> trainable_variables (model t)"
    and "bl \<equiv> blank (text_featurizer t)"
    and "n \<equiv> global_batch_size t"
  assumes m: "call (model t) vars (features b) (pred_inp b) True = Inr logits"
    and d: "floordiv (input_length b) (time_reduction_factor (model t)) = Inr logit_length"
    and l: "rnnt_loss logits (labels b) (label_length b) logit_length bl = Inr per_train_loss"
    and o: "is_mixed_precision t \<Longrightarrow> optimizer t = LossScaleOptimizer inner spec scale"
    and g: "gradients =
              (if is_mixed_precision t
               then map (\<lambda>g. g * (1 / scale))
                      (tape_gradient (dual_scale scale (compute_average_loss per_train_loss n)) vars)
               else tape_gradient (compute_average_loss per_train_loss n) vars)"
    and a: "apply_gradients (optimizer t) (zip gradients vars) = Inr (opt', vars')"
    and k: "train_metrics t ''transducer_loss'' = Some mm"
  shows "train_step rnnt_loss apply_gradients b t =
    ([Model_call (features b) (pred_inp b) True, Tape_watch logits,
      Rnnt_loss logits (labels b) (label_length b) logit_length bl,
      Compute_average_loss per_train_loss n] @
     (if is_mixed_precision t
      then [Get_scaled_loss (compute_average_loss per_train_loss n),
            Tape_gradient (dual_scale scale (compute_average_loss per_train_loss n)) vars,
            Get_unscaled_gradients
              (tape_gradient (dual_scale scale (compute_average_loss per_train_loss n)) vars)]
      else [Tape_gradient (compute_average_loss per_train_loss n) vars]) @
     [Apply_gradients (zip gradients vars),
      Update_state (metric_name mm) (map primal per_train_loss)],
     t\<lparr>optimizer := opt', model := (model t)\<lparr>trainable_variables := vars'\<rparr>,
       train_metrics := (train_metrics t)(''transducer_loss'' \<mapsto>
          update_state mm (map primal per_train_loss))\<rparr>,
     Inr ())"
proof (cases "is_mixed_precision t")
  case True
  then show ?thesis
    using m d l o g a k unfolding vars_def bl_def n_def
    by (simp add: train_step_def tf_function_def train_step_body_unfold gradients_of_mixed)
next
  case False
  then show ?thesis
    using m d l g a k unfolding vars_def bl_def n_def
    by (simp add: train_step_def tf_function_def train_step_body_unfold gradients_of_plain)
qed

theorem train_step_pipeline_witness:
  "calls (train_step example_rnnt_loss example_sgd example_batch mixed_trainer) =
     [Model_call [3, 4] [0] True, Tape_watch [1, 2],
      Rnnt_loss [1, 2] [[1], [2, 3]] [1, 2] [1, 2] 0,
      Compute_average_loss
        [\<lparr>primal = 1, tangent = (\<lambda>i. real i + 1)\<rparr>, \<lparr>primal = 2, tangent = (\<lambda>i. real i + 1)\<rparr>] 2,
      Get_scaled_loss \<lparr>primal = 3 / 2, tangent = (\<lambda>i. real i + 1)\<rparr>,
      Tape_gradient \<lparr>primal = 49152, tangent = (\<lambda>i. (real i + 1) * 32768)\<rparr> [1, 2],
      Get_unscaled_gradients [32768, 65536],
      Apply_gradients [(1, 1), (2, 2)],
      Update_state ''train_transducer_loss'' [1, 2]]
   \<and> trainable_variables (model (final
        (train_step example_rnnt_loss example_sgd example_batch mixed_trainer))) = [0, 0]
   \<and> outcome (train_step example_rnnt_loss example_sgd example_batch mixed_trainer) = Inr ()"
proof -
  let ?per = "[\<lparr>primal = 1, tangent = (\<lambda>i. real i + 1)\<rparr>, \<lparr>primal = 2, tangent = (\<lambda>i. real i + 1)\<rparr>]"
  have m: "call (model mixed_trainer) (trainable_variables (model mixed_trainer))
     (features example_batch) (pred_inp example_batch) True = Inr [1, 2]"
    by (simp add: mx_defs)
  have d: "floordiv (input_length example_batch) (time_reduction_factor (model mixed_trainer))
     = Inr [1, 2]"
    by (simp add: mx_defs floordiv_def int32_def)
  have l: "example_rnnt_loss [1, 2] (labels example_batch) (label_length example_batch) [1, 2]
     (blank (text_featurizer mixed_trainer)) = Inr ?per"
    by (simp add: mx_defs)
  have o: "optimizer mixed_trainer = LossScaleOptimizer (Keras ()) ''dynamic'' 32768"
    by (simp add: mx_defs)
  have g: "[1, 2] =
     (if is_mixed_precision mixed_trainer
      then map (\<lambda>g. g * (1 / 32768))
             (tape_gradient (dual_scale 32768
                (compute_average_loss ?per (global_batch_size mixed_trainer)))
                (trainable_variables (model mixed_trainer)))
      else tape_gradient (compute_average_loss ?per (global_batch_size mixed_trainer))
             (trainable_variables (model mixed_trainer)))"
    by (simp add: mx_defs compute_average_loss_def tape_gradient_def dual_div_def reduce_sum_def
        dual_scale_def)
  have a: "example_sgd (optimizer mixed_trainer) (zip [1, 2] (trainable_variables (model mixed_trainer)))
     = Inr (optimizer mixed_trainer, [0, 0])"
    by (simp add: mx_defs)
  have k: "train_metrics mixed_trainer ''transducer_loss'' = Some (Mean ''train_transducer_loss'' Float32)"
    by (simp add: mx_defs)
  have mp: "is_mixed_precision mixed_trainer"
    by (simp add: mx_defs)
  have tl: "compute_average_loss ?per (global_batch_size mixed_trainer)
     = \<lparr>primal = 3 / 2, tangent = (\<lambda>i. real i + 1)\<rparr>"
    by (simp add: mx_defs compute_average_loss_def dual_div_def reduce_sum_def fun_eq_iff
        add_divide_distrib)
  show ?thesis
    unfolding train_step_pipeline [where rnnt_loss = example_rnnt_loss
        and apply_gradients = example_sgd, OF m d l o g a k]
    by (simp add: mp tl calls_def final_def outcome_def dual_scale_def tape_gradient_def)
       (simp add: mx_defs)
qed

lemmas gradients_of_simps = gradients_of_plain gradients_of_mixed gradients_of_mixed_Keras

lemma train_step_body_cases:
  fixes t :: "('f, 'p, 'l, 'o, 'b) trainer" and b :: "('f, 'p) batch"
  defines "vars \<equiv> trainable_variables (model t)"
    and "bl \<equiv> blank (text_featurizer t)"
    and "n \<equiv> global_batch_size t"
    and "mc \<equiv> Model_call (features b) (pred_inp b) True"
  obtains
    (model_fails) e where
      "call (model t) vars (features b) (pred_inp b) True = Inl e"
      "train_step_body rnnt_loss apply_gradients b t = ([mc], t, Inl e)"
  | (floordiv_fails) logits e where
      "call (model t) vars (features b) (pred_inp b) True = Inr logits"
      "floordiv (input_length b) (time_reduction_factor (model t)) = Inl e"
      "train_step_body rnnt_loss apply_gradients b t = ([mc, Tape_watch logits], t, Inl e)"
  | (loss_fails) logits logit_length e where
      "call (model t) vars (features b) (pred_inp b) True = Inr logits"
      "floordiv (input_length b) (time_reduction_factor (model t)) = Inr logit_length"
      "rnnt_loss logits (labels b) (label_length b) logit_length bl = Inl e"
      "train_step_body rnnt_loss apply_gradients b t =
         ([mc, Tape_watch logits, Rnnt_loss logits (labels b) (label_length b) logit_length bl],
          t, Inl e)"
  | (gradients_fail) logits logit_length per_train_loss gcs e where
      "call (model t) vars (features b) (pred_inp b) True = Inr logits"
      "floordiv (input_length b) (time_reduction_factor (model t)) = Inr logit_length"
      "rnnt_loss logits (labels b) (label_length b) logit_length bl = Inr per_train_loss"
      "gradients_of (is_mixed_precision t) (optimizer t) (compute_average_loss per_train_loss n)
         vars t = (gcs, t, Inl e)"
      "train_step_body rnnt_loss apply_gradients b t =
         ([mc, Tape_watch logits, Rnnt_loss logits (labels b) (label_length b) logit_length bl,
           Compute_average_loss per_train_loss n] @ gcs, t, Inl e)"
  | (apply_fails) logits logit_length per_train_loss gcs gradients e where
      "call (model t) vars (features b) (pred_inp b) True = Inr logits"
      "floordiv (input_length b) (time_reduction_factor (model t)) = Inr logit_length"
      "rnnt_loss logits (labels b) (label_length b) logit_length bl = Inr per_train_loss"
      "gradients_of (is_mixed_precision t) (optimizer t) (compute_average_loss per_train_loss n)
         vars t = (gcs, t, Inr gradients)"
      "apply_gradients (optimizer t) (zip gradients vars) = Inl e"
      "train_step_body rnnt_loss apply_gradients b t =
         ([mc, Tape_watch logits, Rnnt_loss logits (labels b) (label_length b) logit_length bl,
           Compute_average_loss per_train_loss n] @ gcs @ [Apply_gradients (zip gradients vars)],
          t, Inl e)"
  | (no_metric) logits logit_length per_train_loss gcs gradients opt' vars' where
      "call (model t) vars (features b) (pred_inp b) True = Inr logits"
      "floordiv (input_length b) (time_reduction_factor (model t)) = Inr logit_length"
      "rnnt_loss logits (labels b) (label_length b) logit_length bl = Inr per_train_loss"
      "gradients_of (is_mixed_precision t) (optimizer t) (compute_average_loss per_train_loss n)
         vars t = (gcs, t, Inr gradients)"
      "apply_gradients (optimizer t) (zip gradients vars) = Inr (opt', vars')"
      "train_metrics t ''transducer_loss'' = None"
      "train_step_body rnnt_loss apply_gradients b t =
         ([mc, Tape_watch logits, Rnnt_loss logits (labels b) (label_length b) logit_length bl,
           Compute_average_loss per_train_loss n] @ gcs @ [Apply_gradients (zip gradients vars)],
          t\<lparr>optimizer := opt', model := (model t)\<lparr>trainable_variables := vars'\<rparr>\<rparr>,
          Inl (KeyError ''transducer_loss''))"
  | (succeeds) logits logit_length per_train_loss gcs gradients opt' vars' m where
      "call (model t) vars (features b) (pred_inp b) True = Inr logits"
      "floordiv (input_length b) (time_reduction_factor (model t)) = Inr logit_length"
      "rnnt_loss logits (labels b) (label_length b) logit_length bl = Inr per_train_loss"
      "gradients_of (is_mixed_precision t) (optimizer t) (compute_average_loss per_train_loss n)
         vars t = (gcs, t, Inr gradients)"
      "apply_gradients (optimizer t) (zip gradients vars) = Inr (opt', vars')"
      "train_metrics t ''transducer_loss'' = Some m"
      "train_step_body rnnt_loss apply_gradients b t =
         ([mc, Tape_watch logits, Rnnt_loss logits (labels b) (label_length b) logit_length bl,
           Compute_average_loss per_train_loss n] @ gcs @
          [Apply_gradients (zip gradients vars),
           Update_state (metric_name m) (map primal per_train_loss)],
          t\<lparr>optimizer := opt', model := (model t)\<lparr>trainable_variables := vars'\<rparr>,
            train_metrics := (train_metrics t)(''transducer_loss'' \<mapsto>
              update_state m (map primal per_train_loss))\<rparr>,
          Inr ())"
proof (cases "call (model t) vars (features b) (pred_inp b) True")
  case (Inl e)
  then show ?thesis
    using model_fails[of e] unfolding vars_def mc_def by (simp add: train_step_body_unfold)
next
  case c1: (Inr logits)
  show ?thesis
  proof (cases "floordiv (input_length b) (time_reduction_factor (model t))")
    case (Inl e)
    then show ?thesis
      using c1 floordiv_fails[of logits e] unfolding vars_def mc_def
      by (simp add: train_step_body_unfold)
  next
    case c2: (Inr logit_length)
    show ?thesis
    proof (cases "rnnt_loss logits (labels b) (label_length b) logit_length bl")
      case (Inl e)
      then show ?thesis
        using c1 c2 loss_fails[of logits logit_length e] unfolding vars_def mc_def bl_def
        by (simp add: train_step_body_unfold)
    next
      case c3: (Inr per_train_loss)
      obtain gcs t' r where g0: "gradients_of (is_mixed_precision t) (optimizer t)
          (compute_average_loss per_train_loss n) vars t = (gcs, t', r)"
        using prod_cases3 by blast
      then have g: "gradients_of (is_mixed_precision t) (optimizer t)
          (compute_average_loss per_train_loss n) vars t = (gcs, t, r)"
        using gradients_of_stateD [OF g0] by simp
      show ?thesis
      proof (cases r)
        case (Inl e)
        then show ?thesis
          using c1 c2 c3 g gradients_fail[of logits logit_length per_train_loss gcs e]
          unfolding vars_def mc_def bl_def n_def
          by (simp add: train_step_body_unfold)
      next
        case c4: (Inr gradients)
        show ?thesis
        proof (cases "apply_gradients (optimizer t) (zip gradients vars)")
          case (Inl e)
          then show ?thesis
            using c1 c2 c3 c4 g apply_fails[of logits logit_length per_train_loss gcs gradients e]
            unfolding vars_def mc_def bl_def n_def
            by (simp add: train_step_body_unfold)
        next
          case c5: (Inr applied_to)
          obtain opt' vars' where a: "applied_to = (opt', vars')"
            by (cases applied_to)
          show ?thesis
          proof (cases "train_metrics t ''transducer_loss''")
            case None
            then show ?thesis
              using c1 c2 c3 c4 c5 a g
                no_metric[of logits logit_length per_train_loss gcs gradients opt' vars']
              unfolding vars_def mc_def bl_def n_def
              by (simp add: train_step_body_unfold)
          next
            case (Some m)
            then show ?thesis
              using c1 c2 c3 c4 c5 a g
                succeeds[of logits logit_length per_train_loss gcs gradients opt' vars' m]
              unfolding vars_def mc_def bl_def n_def
              by (simp add: train_step_body_unfold)
          qed
        qed
      qed
    qed
  qed
qed

lemma train_step_cases:
  fixes t :: "('f, 'p, 'l, 'o, 'b) trainer" and b :: "('f, 'p) batch"
  defines "vars \<equiv> trainable_variables (model t)"
    and "bl \<equiv> blank (text_featurizer t)"
    and "n \<equiv> global_batch_size t"
    and "mc \<equiv> Model_call (features b) (pred_inp b) True"
  obtains
    (model_fails) e where
      "call (model t) vars (features b) (pred_inp b) True = Inl e"
      "train_step rnnt_loss apply_gradients b t = ([mc], t, Inl (autograph e))"
  | (floordiv_fails) logits e where
      "call (model t) vars (features b) (pred_inp b) True = Inr logits"
      "floordiv (input_length b) (time_reduction_factor (model t)) = Inl e"
      "train_step rnnt_loss apply_gradients b t = ([mc, Tape_watch logits], t, Inl (autograph e))"
  | (loss_fails) logits logit_length e where
      "call (model t) vars (features b) (pred_inp b) True = Inr logits"
      "floordiv (input_length b) (time_reduction_factor (model t)) = Inr logit_length"
      "rnnt_loss logits (labels b) (label_length b) logit_length bl = Inl e"
      "train_step rnnt_loss apply_gradients b t =
         ([mc, Tape_watch logits, Rnnt_loss logits (labels b) (label_length b) logit_length bl],
          t, Inl (autograph e))"
  | (gradients_fail) logits logit_length per_train_loss gcs e where
      "call (model t) vars (features b) (pred_inp b) True = Inr logits"
      "floordiv (input_length b) (time_reduction_factor (model t)) = Inr logit_length"
      "rnnt_loss logits (labels b) (label_length b) logit_length bl = Inr per_train_loss"
      "gradients_of (is_mixed_precision t) (optimizer t) (compute_average_loss per_train_loss n)
         vars t = (gcs, t, Inl e)"
      "train_step rnnt_loss apply_gradients b t =
         ([mc, Tape_watch logits, Rnnt_loss logits (labels b) (label_length b) logit_length bl,
           Compute_average_loss per_train_loss n] @ gcs, t, Inl (autograph e))"
  | (apply_fails) logits logit_length per_train_loss gcs gradients e where
      "call (model t) vars (features b) (pred_inp b) True = Inr logits"
      "floordiv (input_length b) (time_reduction_factor (model t)) = Inr logit_length"
      "rnnt_loss logits (labels b) (label_length b) logit_length bl = Inr per_train_loss"
      "gradients_of (is_mixed_precision t) (optimizer t) (compute_average_loss per_train_loss n)
         vars t = (gcs, t, Inr gradients)"
      "apply_gradients (optimizer t) (zip gradients vars) = Inl e"
      "train_step rnnt_loss apply_gradients b t =
         ([mc, Tape_watch logits, Rnnt_loss logits (labels b) (label_length b) logit_length bl,
           Compute_average_loss per_train_loss n] @ gcs @ [Apply_gradients (zip gradients vars)],
          t, Inl (autograph e))"
  | (no_metric) logits logit_length per_train_loss gcs gradients opt' vars' where
      "call (model t) vars (features b) (pred_inp b) True = Inr logits"
      "floordiv (input_length b) (time_reduction_factor (model t)) = Inr logit_length"
      "rnnt_loss logits (labels b) (label_length b) logit_length bl = Inr per_train_loss"
      "gradients_of (is_mixed_precision t) (optimizer t) (compute_average_loss per_train_loss n)
         vars t = (gcs, t, Inr gradients)"
      "apply_gradients (optimizer t) (zip gradients vars) = Inr (opt', vars')"
      "train_metrics t ''transducer_loss'' = None"
      "train_step rnnt_loss apply_gradients b t =
         ([mc, Tape_watch logits, Rnnt_loss logits (labels b) (label_length b) logit_length bl,
           Compute_average_loss per_train_loss n] @ gcs @ [Apply_gradients (zip gradients vars)],
          t, Inl (In_user_code (KeyError ''transducer_loss'')))"
  | (succeeds) logits logit_length per_train_loss gcs gradients opt' vars' m where
      "call (model t) vars (features b) (pred_inp b) True = Inr logits"
      "floordiv (input_length b) (time_reduction_factor (model t)) = Inr logit_length"
      "rnnt_loss logits (labels b) (label_length b) logit_length bl = Inr per_train_loss"
      "gradients_of (is_mixed_precision t) (optimizer t) (compute_average_loss per_train_loss n)
         vars t = (gcs, t, Inr gradients)"
      "apply_gradients (optimizer t) (zip gradients vars) = Inr (opt', vars')"
      "train_metrics t ''transducer_loss'' = Some m"
      "train_step rnnt_loss apply_gradients b t =
         ([mc, Tape_watch logits, Rnnt_loss logits (labels b) (label_length b) logit_length bl,
           Compute_average_loss per_train_loss n] @ gcs @
          [Apply_gradients (zip gradients vars),
           Update_state (metric_name m) (map primal per_train_loss)],
          t\<lparr>optimizer := opt', model := (model t)\<lparr>trainable_variables := vars'\<rparr>,
            train_metrics := (train_metrics t)(''transducer_loss'' \<mapsto>
              update_state m (map primal per_train_loss))\<rparr>,
          Inr ())"
proof (cases rule: train_step_body_cases [where t = t and b = b and rnnt_loss = rnnt_loss and apply_gradients = apply_gradients])
  case (model_fails e)
  then show ?thesis
    using that(1) [of e] unfolding vars_def bl_def n_def mc_def
    by (simp add: train_step_def tf_function_def)
next
  case (floordiv_fails logits e)
  then show ?thesis
    using that(2) [of logits e] unfolding vars_def bl_def n_def mc_def
    by (simp add: train_step_def tf_function_def)
next
  case (loss_fails logits logit_length e)
  then show ?thesis
    using that(3) [of logits logit_length e] unfolding vars_def bl_def n_def mc_def
    by (simp add: train_step_def tf_function_def)
next
  case (gradients_fail logits logit_length per_train_loss gcs e)
  then show ?thesis
    using that(4) [of logits logit_length per_train_loss gcs e] unfolding vars_def bl_def n_def mc_def
    by (simp add: train_step_def tf_function_def)
next
  case (apply_fails logits logit_length per_train_loss gcs gradients e)
  then show ?thesis
    using that(5) [of logits logit_length per_train_loss gcs gradients e] unfolding vars_def bl_def n_def mc_def
    by (simp add: train_step_def tf_function_def)
next
  case (no_metric logits logit_length per_train_loss gcs gradients opt' vars')
  then show ?thesis
    using that(6) [of logits logit_length per_train_loss gcs gradients opt' vars'] unfolding vars_def bl_def n_def mc_def
    by (simp add: train_step_def tf_function_def)
next
  case (succeeds logits logit_length per_train_loss gcs gradients opt' vars' m)
  then show ?thesis
    using that(7) [of logits logit_length per_train_loss gcs gradients opt' vars' m] unfolding vars_def bl_def n_def mc_def
    by (simp add: train_step_def tf_function_def)
qed

lemma eval_step_body_cases:
  fixes t :: "('f, 'p, 'l, 'o, 'b) trainer" and b :: "('f, 'p) batch"
  defines "vars \<equiv> trainable_variables (model t)"
    and "bl \<equiv> blank (text_featurizer t)"
    and "mc \<equiv> Model_call (features b) (pred_inp b) False"
  obtains
    (model_fails) e where
      "call (model t) vars (features b) (pred_inp b) False = Inl e"
      "eval_step_body rnnt_loss b t = ([mc], t, Inl e)"
  | (floordiv_fails) logits e where
      "call (model t) vars (features b) (pred_inp b) False = Inr logits"
      "floordiv (input_length b) (time_reduction_factor (model t)) = Inl e"
      "eval_step_body rnnt_loss b t = ([mc], t, Inl e)"
  | (loss_fails) logits logit_length e where
      "call (model t) vars (features b) (pred_inp b) False = Inr logits"
      "floordiv (input_length b) (time_reduction_factor (model t)) = Inr logit_length"
      "rnnt_loss logits (labels b) (label_length b) logit_length bl = Inl e"
      "eval_step_body rnnt_loss b t =
         ([mc, Rnnt_loss logits (labels b) (label_length b) logit_length bl], t, Inl e)"
  | (no_metric) logits logit_length eval_loss where
      "call (model t) vars (features b) (pred_inp b) False = Inr logits"
      "floordiv (input_length b) (time_reduction_factor (model t)) = Inr logit_length"
      "rnnt_loss logits (labels b) (label_length b) logit_length bl = Inr eval_loss"
      "eval_metrics t ''transducer_loss'' = None"
      "eval_step_body rnnt_loss b t =
         ([mc, Rnnt_loss logits (labels b) (label_length b) logit_length bl], t,
          Inl (KeyError ''transducer_loss''))"
  | (succeeds) logits logit_length eval_loss m where
      "call (model t) vars (features b) (pred_inp b) False = Inr logits"
      "floordiv (input_length b) (time_reduction_factor (model t)) = Inr logit_length"
      "rnnt_loss logits (labels b) (label_length b) logit_length bl = Inr eval_loss"
      "eval_metrics t ''transducer_loss'' = Some m"
      "eval_step_body rnnt_loss b t =
         ([mc, Rnnt_loss logits (labels b) (label_length b) logit_length bl,
           Update_state (metric_name m) (map primal eval_loss)],
          t\<lparr>eval_metrics := (eval_metrics t)(''transducer_loss'' \<mapsto>
              update_state m (map primal eval_loss))\<rparr>,
          Inr ())"
proof (cases "call (model t) vars (features b) (pred_inp b) False")
  case (Inl e)
  then show ?thesis
    using model_fails[of e] unfolding vars_def mc_def by (simp add: eval_step_body_unfold)
next
  case c1: (Inr logits)
  show ?thesis
  proof (cases "floordiv (input_length b) (time_reduction_factor (model t))")
    case (Inl e)
    then show ?thesis
      using c1 floordiv_fails[of logits e] unfolding vars_def mc_def
      by (simp add: eval_step_body_unfold)
  next
    case c2: (Inr logit_length)
    show ?thesis
    proof (cases "rnnt_loss logits (labels b) (label_length b) logit_length bl")
      case (Inl e)
      then show ?thesis
        using c1 c2 loss_fails[of logits logit_length e] unfolding vars_def mc_def bl_def
        by (simp add: eval_step_body_unfold)
    next
      case c3: (Inr eval_loss)
      show ?thesis
      proof (cases "eval_metrics t ''transducer_loss''")
        case None
        then show ?thesis
          using c1 c2 c3 no_metric[of logits logit_length eval_loss]
          unfolding vars_def mc_def bl_def
          by (simp add: eval_step_body_unfold)
      next
        case (Some m)
        then show ?thesis
          using c1 c2 c3 succeeds[of logits logit_length eval_loss m]
          unfolding vars_def mc_def bl_def
          by (simp add: eval_step_body_unfold)
      qed
    qed
  qed
qed

lemma eval_step_cases:
  fixes t :: "('f, 'p, 'l, 'o, 'b) trainer" and b :: "('f, 'p) batch"
  defines "vars \<equiv> trainable_variables (model t)"
    and "bl \<equiv> blank (text_featurizer t)"
    and "mc \<equiv> Model_call (features b) (pred_inp b) False"
  obtains
    (model_fails) e where
      "call (model t) vars (features b) (pred_inp b) False = Inl e"
      "eval_step rnnt_loss b t = ([mc], t, Inl (autograph e))"
  | (floordiv_fails) logits e where
      "call (model t) vars (features b) (pred_inp b) False = Inr logits"
      "floordiv (input_length b) (time_reduction_factor (model t)) = Inl e"
      "eval_step rnnt_loss b t = ([mc], t, Inl (autograph e))"
  | (loss_fails) logits logit_length e where
      "call (model t) vars (features b) (pred_inp b) False = Inr logits"
      "floordiv (input_length b) (time_reduction_factor (model t)) = Inr logit_length"
      "rnnt_loss logits (labels b) (label_length b) logit_length bl = Inl e"
      "eval_step rnnt_loss b t =
         ([mc, Rnnt_loss logits (labels b) (label_length b) logit_length bl], t, Inl (autograph e))"
  | (no_metric) logits logit_length eval_loss where
      "call (model t) vars (features b) (pred_inp b) False = Inr logits"
      "floordiv (input_length b) (time_reduction_factor (model t)) = Inr logit_length"
      "rnnt_loss logits (labels b) (label_length b) logit_length bl = Inr eval_loss"
      "eval_metrics t ''transducer_loss'' = None"
      "eval_step rnnt_loss b t =
         ([mc, Rnnt_loss logits (labels b) (label_length b) logit_length bl], t,
          Inl (In_user_code (KeyError ''transducer_loss'')))"
  | (succeeds) logits logit_length eval_loss m where
      "call (model t) vars (features b) (pred_inp b) False = Inr logits"
      "floordiv (input_length b) (time_reduction_factor (model t)) = Inr logit_length"
      "rnnt_loss logits (labels b) (label_length b) logit_length bl = Inr eval_loss"
      "eval_metrics t ''transducer_loss'' = Some m"
      "eval_step rnnt_loss b t =
         ([mc, Rnnt_loss logits (labels b) (label_length b) logit_length bl,
           Update_state (metric_name m) (map primal eval_loss)],
          t\<lparr>eval_metrics := (eval_metrics t)(''transducer_loss'' \<mapsto>
              update_state m (map primal eval_loss))\<rparr>,
          Inr ())"
proof (cases rule: eval_step_body_cases [where t = t and b = b and rnnt_loss = rnnt_loss])
  case (model_fails e)
  then show ?thesis
    using that(1) [of e] unfolding vars_def bl_def mc_def
    by (simp add: eval_step_def tf_function_def)
next
  case (floordiv_fails logits e)
  then show ?thesis
    using that(2) [of logits e] unfolding vars_def bl_def mc_def
    by (simp add: eval_step_def tf_function_def)
next
  case (loss_fails logits logit_length e)
  then show ?thesis
    using that(3) [of logits logit_length e] unfolding vars_def bl_def mc_def
    by (simp add: eval_step_def tf_function_def)
next
  case (no_metric logits logit_length eval_loss)
  then show ?thesis
    using that(4) [of logits logit_length eval_loss] unfolding vars_def bl_def mc_def
    by (simp add: eval_step_def tf_function_def)
next
  case (succeeds logits logit_length eval_loss m)
  then show ?thesis
    using that(5) [of logits logit_length eval_loss m] unfolding vars_def bl_def mc_def
    by (simp add: eval_step_def tf_function_def)
qed

lemma applied_simps:
  "applied [] = []"
  "applied (c # cs) = applied_with c @ applied cs"
  "applied (cs @ cs') = applied cs @ applied cs'"
  by (simp_all add: applied_def)

lemma seen_simps:
  "seen [] = []"
  "seen (c # cs) = updated_with c @ seen cs"
  "seen (cs @ cs') = seen cs @ seen cs'"
  by (simp_all add: seen_def)

lemma gradients_of_applied:
  "gradients_of mixed opt l vs s = (gcs, s', r) \<Longrightarrow> applied gcs = []"
  by (cases mixed; cases opt) (auto simp add: gradients_of_simps applied_def)

lemma gradients_of_seen:
  "gradients_of mixed opt l vs s = (gcs, s', r) \<Longrightarrow> seen gcs = []"
  by (cases mixed; cases opt) (auto simp add: gradients_of_simps seen_def)

lemma train_step_applied:
  "applied (calls (train_step rnnt_loss apply_gradients b t)) =
     (case call (model t) (trainable_variables (model t)) (features b) (pred_inp b) True of
        Inl e \<Rightarrow> []
      | Inr logits \<Rightarrow>
         (case floordiv (input_length b) (time_reduction_factor (model t)) of
            Inl e \<Rightarrow> []
          | Inr logit_length \<Rightarrow>
             (case rnnt_loss logits (labels b) (label_length b) logit_length
                     (blank (text_featurizer t)) of
                Inl e \<Rightarrow> []
              | Inr per_train_loss \<Rightarrow>
                 (case outcome (gradients_of (is_mixed_precision t) (optimizer t)
                         (compute_average_loss per_train_loss (global_batch_size t))
                         (trainable_variables (model t)) t) of
                    Inl e \<Rightarrow> []
                  | Inr gradients \<Rightarrow> [zip gradients (trainable_variables (model t))]))))"
  by (cases rule: train_step_cases[where t = t and b = b and rnnt_loss = rnnt_loss
        and apply_gradients = apply_gradients])
     (simp_all add: calls_def outcome_def gradients_of_applied applied_simps)

lemma unscale_scaled:
  assumes "scale \<noteq> 0"
  shows "map (\<lambda>g. g / scale) (tape_gradient (dual_scale scale l) vars) = tape_gradient l vars"
  using assms by (simp add: tape_gradient_def dual_scale_def)

lemma gradients_of_mixed_outcome:
  assumes "scale \<noteq> 0"
  shows "outcome (gradients_of True (LossScaleOptimizer inner spec scale) train_loss vars s)
           = Inr (tape_gradient train_loss vars)"
  using assms by (simp add: gradients_of_mixed outcome_def unscale_scaled)

lemma gradients_of_plain_outcome:
  "outcome (gradients_of False opt train_loss vars s) = Inr (tape_gradient train_loss vars)"
  by (simp add: gradients_of_plain outcome_def)

lemma applied_mixed_plain:
  assumes "scale \<noteq> 0"
  shows "applied (calls (train_step rnnt_loss apply_gradients b
             (t\<lparr>is_mixed_precision := True, optimizer := LossScaleOptimizer inner spec scale\<rparr>)))
         = applied (calls (train_step rnnt_loss apply_gradients' b
             (t\<lparr>is_mixed_precision := False, optimizer := opt\<rparr>)))"
proof -
  let ?mixed = "t\<lparr>is_mixed_precision := True, optimizer := LossScaleOptimizer inner spec scale\<rparr>"
  let ?plain = "t\<lparr>is_mixed_precision := False, optimizer := opt\<rparr>"
  have g: "outcome (gradients_of (is_mixed_precision ?mixed) (optimizer ?mixed) l vs ?mixed)
         = outcome (gradients_of (is_mixed_precision ?plain) (optimizer ?plain) l vs ?plain)" for l vs
    using gradients_of_mixed_outcome [OF assms, of inner spec l vs ?mixed]
      gradients_of_plain_outcome [of opt l vs ?plain]
    by simp
  show ?thesis
    unfolding train_step_applied g by (simp cong: sum.case_cong)
qed

section \<open>Loss scaling\<close>

text \<open>
  C2. With a loss scale other than zero, so that unscaling inverts scaling, the gradients
  the mixed-precision branch computes (the unscaled gradient of the scaled average loss)
  are the gradient of the average loss itself, which is what the other branch computes; and
  a train step under mixed precision hands \<^verbatim>\<open>apply_gradients\<close> the same pairs of
  gradient and variable as the train step without it, for every batch and trainer.
\<close>

theorem loss_scaling_preserves_gradients:
  assumes "scale \<noteq> 0"
  shows "outcome (gradients_of True (LossScaleOptimizer inner spec scale) train_loss vars s)
           = Inr (tape_gradient train_loss vars)
       \<and> outcome (gradients_of False opt train_loss vars s) = Inr (tape_gradient train_loss vars)
       \<and> applied (calls (train_step rnnt_loss apply_gradients b
             (t\<lparr>is_mixed_precision := True, optimizer := LossScaleOptimizer inner spec scale\<rparr>)))
         = applied (calls (train_step rnnt_loss apply_gradients' b
             (t\<lparr>is_mixed_precision := False, optimizer := opt\<rparr>)))"
proof (intro conjI)
  show "outcome (gradients_of True (LossScaleOptimizer inner spec scale) train_loss vars s)
           = Inr (tape_gradient train_loss vars)"
    by (rule gradients_of_mixed_outcome [OF assms])
  show "outcome (gradients_of False opt train_loss vars s) = Inr (tape_gradient train_loss vars)"
    by (rule gradients_of_plain_outcome)
  show "applied (calls (train_step rnnt_loss apply_gradients b
             (t\<lparr>is_mixed_precision := True, optimizer := LossScaleOptimizer inner spec scale\<rparr>)))
         = applied (calls (train_step rnnt_loss apply_gradients' b
             (t\<lparr>is_mixed_precision := False, optimizer := opt\<rparr>)))"
    by (rule applied_mixed_plain [OF assms])
qed

lemma example_train_step:
  "train_step example_rnnt_loss example_sgd example_batch example_trainer =
     ([Model_call [3, 4] [0] True, Tape_watch [1, 2],
       Rnnt_loss [1, 2] [[1], [2, 3]] [1, 2] [1, 2] 0,
       Compute_average_loss
         [\<lparr>primal = 1, tangent = (\<lambda>i. real i + 1)\<rparr>, \<lparr>primal = 2, tangent = (\<lambda>i. real i + 1)\<rparr>] 2,
       Tape_gradient \<lparr>primal = 3 / 2, tangent = (\<lambda>i. real i + 1)\<rparr> [1, 2],
       Apply_gradients [(1, 1), (2, 2)],
       Update_state ''train_transducer_loss'' [1, 2]],
      example_trainer\<lparr>model := example_model\<lparr>trainable_variables := [0, 0]\<rparr>,
        train_metrics := [''transducer_loss'' \<mapsto>
          \<lparr>metric_name = ''train_transducer_loss'', metric_dtype = Float32,
            total_sum = 3, count_seen = 2\<rparr>]\<rparr>,
      Inr ())"
  by (simp add: train_step_def train_step_body_def tf_function_def gradients_of_def update_train_metric_def prog_defs ex_defs
      floordiv_def int32_def compute_average_loss_def tape_gradient_def dual_div_def reduce_sum_def
      update_state_def fun_eq_iff add_divide_distrib)

theorem loss_scaling_preserves_gradients_witness:
  "(32768::real) \<noteq> 0
   \<and> outcome (gradients_of True (LossScaleOptimizer (Keras ()) ''dynamic'' 32768)
        \<lparr>primal = 3 / 2, tangent = (\<lambda>i. real i + 1)\<rparr> [1, 2] example_trainer) = Inr [1, 2]
   \<and> applied (calls (train_step example_rnnt_loss example_sgd example_batch mixed_trainer))
       = [[(1, 1), (2, 2)]]
   \<and> applied (calls (train_step example_rnnt_loss example_sgd example_batch example_trainer))
       = [[(1, 1), (2, 2)]]"
proof -
  have nz: "(32768::real) \<noteq> 0" by simp
  have p: "applied (calls (train_step example_rnnt_loss example_sgd example_batch example_trainer))
       = [[(1, 1), (2, 2)]]"
    by (simp add: example_train_step calls_def applied_def)
  have t1: "example_trainer\<lparr>is_mixed_precision := True,
      optimizer := LossScaleOptimizer (Keras ()) ''dynamic'' 32768\<rparr> = mixed_trainer"
    by (simp add: mixed_trainer_def dynamic_LossScaleOptimizer_def)
  have t2: "example_trainer\<lparr>is_mixed_precision := False, optimizer := Keras ()\<rparr> = example_trainer"
    by (simp add: ex_defs)
  note c = loss_scaling_preserves_gradients [OF nz, where inner = "Keras ()" and spec = "''dynamic''"
      and train_loss = "\<lparr>primal = 3 / 2, tangent = (\<lambda>i. real i + 1)\<rparr>" and vars = "[1, 2]"
      and s = example_trainer and t = example_trainer and opt = "Keras ()"
      and rnnt_loss = example_rnnt_loss and apply_gradients = example_sgd
      and apply_gradients' = example_sgd and b = example_batch]
  have "applied (calls (train_step example_rnnt_loss example_sgd example_batch mixed_trainer))
       = applied (calls (train_step example_rnnt_loss example_sgd example_batch example_trainer))"
    using c [THEN conjunct2, THEN conjunct2] unfolding t1 t2 .
  moreover have "outcome (gradients_of True (LossScaleOptimizer (Keras ()) ''dynamic'' 32768)
        \<lparr>primal = 3 / 2, tangent = (\<lambda>i. real i + 1)\<rparr> [1, 2] example_trainer) = Inr [1, 2]"
    using c [THEN conjunct1] by (simp add: tape_gradient_def)
  ultimately show ?thesis using nz p by simp
qed

section \<open>The eval step\<close>

text \<open>
  C3. For every batch, whatever the outcome, the eval step leaves every field of the
  trainer but \<^verbatim>\<open>eval_metrics\<close> as it was (the model with its trainable variables
  and the optimizer among them), and of \<^verbatim>\<open>eval_metrics\<close> it changes at most the
  entry \<^verbatim>\<open>"transducer_loss"\<close>; it calls the model once, with
  \<^verbatim>\<open>training=False\<close>, and makes no call that computes, scales or applies a
  gradient. When the model, the floor division and the loss return and the metric is
  installed, its calls are the model, the RNNT loss and the update of the eval metric with
  the per-example losses.
\<close>

theorem eval_step_frame:
  fixes t :: "('f, 'p, 'l, 'o, 'b) trainer" and b :: "('f, 'p) batch"
  shows "final (eval_step rnnt_loss b t)
           = t\<lparr>eval_metrics := eval_metrics (final (eval_step rnnt_loss b t))\<rparr>
       \<and> model (final (eval_step rnnt_loss b t)) = model t
       \<and> optimizer (final (eval_step rnnt_loss b t)) = optimizer t
       \<and> train_metrics (final (eval_step rnnt_loss b t)) = train_metrics t
       \<and> (\<forall>k. k \<noteq> ''transducer_loss'' \<longrightarrow>
             eval_metrics (final (eval_step rnnt_loss b t)) k = eval_metrics t k)
       \<and> filter gradient_call (calls (eval_step rnnt_loss b t)) = []
       \<and> concat (map model_calls (calls (eval_step rnnt_loss b t)))
             = [(features b, pred_inp b, False)]
       \<and> (\<forall>logits logit_length eval_loss m.
             call (model t) (trainable_variables (model t)) (features b) (pred_inp b) False
               = Inr logits \<longrightarrow>
             floordiv (input_length b) (time_reduction_factor (model t)) = Inr logit_length \<longrightarrow>
             rnnt_loss logits (labels b) (label_length b) logit_length (blank (text_featurizer t))
               = Inr eval_loss \<longrightarrow>
             eval_metrics t ''transducer_loss'' = Some m \<longrightarrow>
             eval_step rnnt_loss b t =
               ([Model_call (features b) (pred_inp b) False,
                 Rnnt_loss logits (labels b) (label_length b) logit_length
                   (blank (text_featurizer t)),
                 Update_state (metric_name m) (map primal eval_loss)],
                t\<lparr>eval_metrics := (eval_metrics t)(''transducer_loss'' \<mapsto>
                     update_state m (map primal eval_loss))\<rparr>,
                Inr ()))"
  by (cases rule: eval_step_cases [where t = t and b = b and rnnt_loss = rnnt_loss])
     (simp_all add: final_def calls_def)

theorem eval_step_frame_witness:
  "eval_step example_rnnt_loss example_batch example_trainer =
     ([Model_call [3, 4] [0] False, Rnnt_loss [2, 3] [[1], [2, 3]] [1, 2] [1, 2] 0,
       Update_state ''eval_transducer_loss'' [1, 2]],
      example_trainer\<lparr>eval_metrics := [''transducer_loss'' \<mapsto>
          \<lparr>metric_name = ''eval_transducer_loss'', metric_dtype = Float32,
            total_sum = 3, count_seen = 2\<rparr>]\<rparr>,
      Inr ())
   \<and> eval_metrics (final (eval_step example_rnnt_loss example_batch example_trainer))
        ''other'' = None"
proof -
  let ?per = "[\<lparr>primal = 1, tangent = (\<lambda>i. real i + 1)\<rparr>, \<lparr>primal = 2, tangent = (\<lambda>i. real i + 1)\<rparr>]"
  note f = eval_step_frame [where t = example_trainer and b = example_batch
      and rnnt_loss = example_rnnt_loss]
  have m: "call (model example_trainer) (trainable_variables (model example_trainer))
     (features example_batch) (pred_inp example_batch) False = Inr [2, 3]"
    by (simp add: ex_defs)
  have d: "floordiv (input_length example_batch) (time_reduction_factor (model example_trainer))
     = Inr [1, 2]"
    by (simp add: ex_defs floordiv_def int32_def)
  have l: "example_rnnt_loss [2, 3] (labels example_batch) (label_length example_batch) [1, 2]
     (blank (text_featurizer example_trainer)) = Inr ?per"
    by (simp add: ex_defs)
  have k: "eval_metrics example_trainer ''transducer_loss''
     = Some (Mean ''eval_transducer_loss'' Float32)"
    by (simp add: ex_defs)
  have ne: "''other'' \<noteq> ''transducer_loss''" by simp
  have e: "eval_metrics example_trainer ''other'' = None"
    by (simp add: ex_defs)
  from f have 1: "eval_metrics (final (eval_step example_rnnt_loss example_batch example_trainer))
        ''other'' = None"
    using ne e by simp
  from f m d l k have 2: "eval_step example_rnnt_loss example_batch example_trainer =
       ([Model_call (features example_batch) (pred_inp example_batch) False,
         Rnnt_loss [2, 3] (labels example_batch) (label_length example_batch) [1, 2]
           (blank (text_featurizer example_trainer)),
         Update_state (metric_name (Mean ''eval_transducer_loss'' Float32)) (map primal ?per)],
        example_trainer\<lparr>eval_metrics := (eval_metrics example_trainer)(''transducer_loss'' \<mapsto>
             update_state (Mean ''eval_transducer_loss'' Float32) (map primal ?per))\<rparr>,
        Inr ())"
    by blast
  show ?thesis
    unfolding 2 using 1 [unfolded 2] by (simp add: ex_defs update_state_def final_def numeral_2_eq_2)
qed

section \<open>The arguments of the loss\<close>

lemma gradients_of_other_calls:
  assumes "gradients_of mixed opt l vs s = (gcs, s', r)"
  shows "concat (map rnnt_arguments gcs) = []"
    and "concat (map rnnt_logits gcs) = []"
    and "concat (map model_calls gcs) = []"
    and "Rnnt_loss lg ls ll gl bl \<notin> set gcs"
    and "Apply_gradients gv \<notin> set gcs"
  using assms by (cases mixed; cases opt; auto simp add: gradients_of_simps)+

lemma floor_div_int: "\<lfloor>real_of_int n / real_of_int d\<rfloor> = n div d"
  by (rule floor_divide_of_int_eq)

lemma ceiling_div_int:
  assumes "\<not> d dvd n" "d \<noteq> 0"
  shows "\<lceil>real_of_int n / real_of_int d\<rceil> = n div d + 1"
proof -
  have "n mod d \<noteq> 0" using assms by (simp add: dvd_eq_mod_eq_0)
  then have "(- n) div d = - (n div d) - 1"
    using assms(2) by (simp add: zdiv_zminus1_eq_if)
  then show ?thesis
    by (simp add: ceiling_divide_eq_div)
qed

lemma int32_in_range: "in_int32 x \<Longrightarrow> int32 x = x"
  by (simp add: int32_def in_int32_def)

lemma div_in_int32:
  assumes "in_int32 n" "0 < d"
  shows "in_int32 (n div d)"
proof (cases "0 \<le> n")
  case True
  then have "0 \<le> n div d" using assms(2) by (simp add: pos_imp_zdiv_nonneg_iff)
  moreover have "n div d \<le> n div 1" using True assms(2) by (intro zdiv_mono2) simp_all
  ultimately show ?thesis using assms(1) by (simp add: in_int32_def)
next
  case False
  then have "n div d < 0" using assms(2) by (simp add: pos_imp_zdiv_neg_iff)
  moreover have "n div 1 \<le> n div d" using False assms(2) by (intro zdiv_mono2_neg) simp_all
  ultimately show ?thesis using assms(1) by (simp add: in_int32_def)
qed

lemma floordiv_int32:
  assumes "floordiv xs d = Inr ys"
  shows "ys = map (\<lambda>n. int32 (int32 n div int32 d)) xs"
  using assms by (auto simp add: floordiv_def split: if_splits)

lemma floordiv_wraps:
  "floordiv [- 2147483648] (- 1) = Inr [- 2147483648]"
  "floordiv [7, 9] 2147483648 = Inr [- 1, - 1]"
  by (simp_all add: floordiv_def int32_def)

lemma floordiv_floor:
  assumes "floordiv xs d = Inr ys" and "list_all in_int32 xs" and "0 < d" and "d < 2 ^ 31"
  shows "ys = map (\<lambda>n. \<lfloor>real_of_int n / real_of_int d\<rfloor>) xs"
    and "i < length xs \<Longrightarrow> \<not> d dvd xs ! i \<Longrightarrow>
           ys ! i = \<lceil>real_of_int (xs ! i) / real_of_int d\<rceil> - 1"
proof -
  have d: "int32 d = d"
    using assms(3,4) by (simp add: int32_in_range in_int32_def)
  have q: "int32 (int32 n div int32 d) = n div d" if "n \<in> set xs" for n
  proof -
    from that assms(2) have n: "in_int32 n" by (simp add: list_all_iff)
    then show ?thesis
      using div_in_int32 [OF n assms(3)] by (simp add: d int32_in_range)
  qed
  have ys: "ys = map (\<lambda>n. n div d) xs"
    using floordiv_int32 [OF assms(1)] q by simp
  show "ys = map (\<lambda>n. \<lfloor>real_of_int n / real_of_int d\<rfloor>) xs"
    using ys by (simp add: floor_div_int)
  show "ys ! i = \<lceil>real_of_int (xs ! i) / real_of_int d\<rceil> - 1"
    if "i < length xs" "\<not> d dvd xs ! i"
    using that assms(3) by (simp add: ys ceiling_div_int)
qed

lemma train_step_rnnt_call:
  assumes "Rnnt_loss lg ls ll gl bl \<in> set (calls (train_step rnnt_loss apply_gradients b t))"
  shows "floordiv (input_length b) (time_reduction_factor (model t)) = Inr gl"
  using assms
  by (cases rule: train_step_cases [where t = t and b = b and rnnt_loss = rnnt_loss
        and apply_gradients = apply_gradients])
     (auto simp add: calls_def gradients_of_other_calls)

lemma eval_step_rnnt_call:
  assumes "Rnnt_loss lg ls ll gl bl \<in> set (calls (eval_step rnnt_loss b t))"
  shows "floordiv (input_length b) (time_reduction_factor (model t)) = Inr gl"
  using assms
  by (cases rule: eval_step_cases [where t = t and b = b and rnnt_loss = rnnt_loss])
     (auto simp add: calls_def)

lemma example_eval_step:
  "eval_step example_rnnt_loss example_batch example_trainer =
     ([Model_call [3, 4] [0] False, Rnnt_loss [2, 3] [[1], [2, 3]] [1, 2] [1, 2] 0,
       Update_state ''eval_transducer_loss'' [1, 2]],
      example_trainer\<lparr>eval_metrics := [''transducer_loss'' \<mapsto>
          \<lparr>metric_name = ''eval_transducer_loss'', metric_dtype = Float32,
            total_sum = 3, count_seen = 2\<rparr>]\<rparr>,
      Inr ())"
  by (simp add: eval_step_def eval_step_body_def tf_function_def update_eval_metric_def prog_defs ex_defs floordiv_def int32_def
      update_state_def numeral_2_eq_2)

text \<open>
  C8. Whenever the train step or the eval step calls the RNNT loss, the logit length it
  passes is the input length floor-divided, in 32 bits, by the time reduction factor of the
  model, element by element. For input lengths that are 32-bit integers and a positive
  factor below \<open>2 ^ 31\<close> that is the floor of the quotient; where an input length is not a
  multiple of the factor, the logit length is one below the quotient rounded up: the
  remaining frames are dropped.
\<close>

theorem logit_length_is_floor:
  assumes "Rnnt_loss lg ls ll gl bl \<in> set (calls (train_step rnnt_loss apply_gradients b t))
         \<or> Rnnt_loss lg ls ll gl bl \<in> set (calls (eval_step rnnt_loss b t))"
  shows "floordiv (input_length b) (time_reduction_factor (model t)) = Inr gl
       \<and> gl = map (\<lambda>n. int32 (int32 n div int32 (time_reduction_factor (model t))))
                (input_length b)
       \<and> (list_all in_int32 (input_length b) \<longrightarrow>
          0 < time_reduction_factor (model t) \<longrightarrow> time_reduction_factor (model t) < 2 ^ 31 \<longrightarrow>
            gl = map (\<lambda>n. \<lfloor>real_of_int n / real_of_int (time_reduction_factor (model t))\<rfloor>)
                   (input_length b)
          \<and> (\<forall>i < length (input_length b).
                \<not> time_reduction_factor (model t) dvd input_length b ! i \<longrightarrow>
                gl ! i = \<lceil>real_of_int (input_length b ! i)
                           / real_of_int (time_reduction_factor (model t))\<rceil> - 1))"
proof -
  from assms have f: "floordiv (input_length b) (time_reduction_factor (model t)) = Inr gl"
  proof
    assume "Rnnt_loss lg ls ll gl bl \<in> set (calls (train_step rnnt_loss apply_gradients b t))"
    then show ?thesis by (rule train_step_rnnt_call)
  next
    assume "Rnnt_loss lg ls ll gl bl \<in> set (calls (eval_step rnnt_loss b t))"
    then show ?thesis by (rule eval_step_rnnt_call)
  qed
  show ?thesis
    using f floordiv_int32 [OF f] floordiv_floor(1) [OF f] floordiv_floor(2) [OF f] by simp
qed

theorem logit_length_is_floor_witness:
  "Rnnt_loss [1, 2] [[1], [2, 3]] [1, 2] [1, 2] 0
     \<in> set (calls (train_step example_rnnt_loss example_sgd example_batch example_trainer))
   \<and> Rnnt_loss [2, 3] [[1], [2, 3]] [1, 2] [1, 2] 0
     \<in> set (calls (eval_step example_rnnt_loss example_batch example_trainer))
   \<and> input_length example_batch = [7, 9]
   \<and> time_reduction_factor (model example_trainer) = 4
   \<and> list_all in_int32 [7, 9] \<and> (0::int) < 4 \<and> (4::int) < 2 ^ 31
   \<and> \<not> (4::int) dvd 7
   \<and> [1, 2] = map (\<lambda>n. int32 (int32 n div int32 4)) [7, 9]
   \<and> [1, 2] = map (\<lambda>n. \<lfloor>real_of_int n / real_of_int 4\<rfloor>) [7, 9 :: int]
   \<and> [1, 2 :: int] ! 0 = \<lceil>real_of_int 7 / real_of_int 4\<rceil> - 1"
proof -
  have tr: "Rnnt_loss [1, 2] [[1], [2, 3]] [1, 2] [1, 2] 0
     \<in> set (calls (train_step example_rnnt_loss example_sgd example_batch example_trainer))"
    by (simp add: example_train_step calls_def)
  have ev: "Rnnt_loss [2, 3] [[1], [2, 3]] [1, 2] [1, 2] 0
     \<in> set (calls (eval_step example_rnnt_loss example_batch example_trainer))"
    by (simp add: example_eval_step calls_def)
  have il: "input_length example_batch = [7, 9]"
    and tf: "time_reduction_factor (model example_trainer) = 4"
    by (simp_all add: ex_defs)
  have rg: "list_all in_int32 [7, 9]" and ps: "(0::int) < 4" and bd: "(4::int) < 2 ^ 31"
    by (simp_all add: in_int32_def)
  have nd: "\<not> (4::int) dvd 7" by simp
  note c = logit_length_is_floor [where t = example_trainer and b = example_batch
      and rnnt_loss = example_rnnt_loss and apply_gradients = example_sgd, OF disjI1, OF tr,
      unfolded il tf]
  from c have 1: "[1, 2] = map (\<lambda>n. int32 (int32 n div int32 4)) [7, 9]"
    by blast
  from c rg ps bd have 2: "[1, 2] = map (\<lambda>n. \<lfloor>real_of_int n / real_of_int 4\<rfloor>) [7, 9 :: int]"
    by blast
  from c rg ps bd nd have 3: "[1, 2 :: int] ! 0 = \<lceil>real_of_int 7 / real_of_int 4\<rceil> - 1"
    by auto
  show ?thesis
    using tr ev il tf rg ps bd nd 1 2 3 by blast
qed

section \<open>The two steps side by side\<close>

lemma train_step_loss_call:
  assumes "call (model t) (trainable_variables (model t)) (features b) (pred_inp b) True
             = Inr logits"
  shows "concat (map rnnt_arguments (calls (train_step rnnt_loss apply_gradients b t))) =
           (case floordiv (input_length b) (time_reduction_factor (model t)) of
              Inl e \<Rightarrow> []
            | Inr gl \<Rightarrow> [(labels b, label_length b, gl, blank (text_featurizer t))])"
    and "concat (map rnnt_logits (calls (train_step rnnt_loss apply_gradients b t))) =
           (case floordiv (input_length b) (time_reduction_factor (model t)) of
              Inl e \<Rightarrow> []
            | Inr gl \<Rightarrow> [logits])"
  using assms
  by (cases rule: train_step_cases [where t = t and b = b and rnnt_loss = rnnt_loss
        and apply_gradients = apply_gradients];
      simp add: calls_def gradients_of_other_calls)+

lemma eval_step_loss_call:
  assumes "call (model t) (trainable_variables (model t)) (features b) (pred_inp b) False
             = Inr logits"
  shows "concat (map rnnt_arguments (calls (eval_step rnnt_loss b t))) =
           (case floordiv (input_length b) (time_reduction_factor (model t)) of
              Inl e \<Rightarrow> []
            | Inr gl \<Rightarrow> [(labels b, label_length b, gl, blank (text_featurizer t))])"
    and "concat (map rnnt_logits (calls (eval_step rnnt_loss b t))) =
           (case floordiv (input_length b) (time_reduction_factor (model t)) of
              Inl e \<Rightarrow> []
            | Inr gl \<Rightarrow> [logits])"
  using assms
  by (cases rule: eval_step_cases [where t = t and b = b and rnnt_loss = rnnt_loss];
      simp add: calls_def)+

lemma train_step_model_calls:
  "concat (map model_calls (calls (train_step rnnt_loss apply_gradients b t)))
     = [(features b, pred_inp b, True)]"
  by (cases rule: train_step_cases [where t = t and b = b and rnnt_loss = rnnt_loss
        and apply_gradients = apply_gradients])
     (simp_all add: calls_def gradients_of_other_calls)

lemma eval_step_model_calls:
  "concat (map model_calls (calls (eval_step rnnt_loss b t)))
     = [(features b, pred_inp b, False)]"
  by (cases rule: eval_step_cases [where t = t and b = b and rnnt_loss = rnnt_loss])
     (simp_all add: calls_def)

text \<open>
  C9. When the model returns logits in both modes, the train step and the eval step call
  the RNNT loss with the same labels, label lengths, logit lengths (the input lengths
  floor-divided by the time reduction factor) and blank index; the logits they pass are
  the ones their own model call returned, and the model calls differ only in the training
  flag: \<open>True\<close> in the train step, \<open>False\<close> in the eval step.
\<close>

theorem steps_call_rnnt_loss_alike:
  assumes "call (model t) (trainable_variables (model t)) (features b) (pred_inp b) True
             = Inr logits_train"
    and "call (model t) (trainable_variables (model t)) (features b) (pred_inp b) False
             = Inr logits_eval"
  shows "concat (map rnnt_arguments (calls (train_step rnnt_loss apply_gradients b t)))
           = concat (map rnnt_arguments (calls (eval_step rnnt_loss b t)))
       \<and> concat (map rnnt_arguments (calls (eval_step rnnt_loss b t))) =
           (case floordiv (input_length b) (time_reduction_factor (model t)) of
              Inl e \<Rightarrow> []
            | Inr gl \<Rightarrow> [(labels b, label_length b, gl, blank (text_featurizer t))])
       \<and> concat (map rnnt_logits (calls (train_step rnnt_loss apply_gradients b t))) =
           (case floordiv (input_length b) (time_reduction_factor (model t)) of
              Inl e \<Rightarrow> []
            | Inr gl \<Rightarrow> [logits_train])
       \<and> concat (map rnnt_logits (calls (eval_step rnnt_loss b t))) =
           (case floordiv (input_length b) (time_reduction_factor (model t)) of
              Inl e \<Rightarrow> []
            | Inr gl \<Rightarrow> [logits_eval])
       \<and> concat (map model_calls (calls (train_step rnnt_loss apply_gradients b t)))
           = [(features b, pred_inp b, True)]
       \<and> concat (map model_calls (calls (eval_step rnnt_loss b t)))
           = [(features b, pred_inp b, False)]"
  using train_step_loss_call [OF assms(1), of rnnt_loss apply_gradients]
    eval_step_loss_call [OF assms(2), of rnnt_loss]
    train_step_model_calls [of rnnt_loss apply_gradients b t]
    eval_step_model_calls [of rnnt_loss b t]
  by simp

theorem steps_call_rnnt_loss_alike_witness:
  "concat (map rnnt_arguments
      (calls (train_step example_rnnt_loss example_sgd example_batch example_trainer)))
     = [([[1], [2, 3]], [1, 2], [1, 2], 0)]
   \<and> concat (map rnnt_arguments (calls (eval_step example_rnnt_loss example_batch example_trainer)))
     = [([[1], [2, 3]], [1, 2], [1, 2], 0)]
   \<and> concat (map rnnt_logits
        (calls (train_step example_rnnt_loss example_sgd example_batch example_trainer)))
     = [[1, 2]]
   \<and> concat (map rnnt_logits (calls (eval_step example_rnnt_loss example_batch example_trainer)))
     = [[2, 3]]"
proof -
  have mt: "call (model example_trainer) (trainable_variables (model example_trainer))
     (features example_batch) (pred_inp example_batch) True = Inr [1, 2]"
    by (simp add: ex_defs)
  have me: "call (model example_trainer) (trainable_variables (model example_trainer))
     (features example_batch) (pred_inp example_batch) False = Inr [2, 3]"
    by (simp add: ex_defs)
  have d: "floordiv (input_length example_batch) (time_reduction_factor (model example_trainer))
     = Inr [1, 2]"
    by (simp add: ex_defs floordiv_def int32_def)
  have r: "labels example_batch = [[1], [2, 3]]" "label_length example_batch = [1, 2]"
    "blank (text_featurizer example_trainer) = 0"
    by (simp_all add: ex_defs)
  show ?thesis
    using steps_call_rnnt_loss_alike [OF mt me, of example_rnnt_loss example_sgd]
    unfolding d r by simp
qed

section \<open>fit\<close>

lemma fit_unfold:
  "fit set_train_data_loader set_eval_data_loader load_checkpoint run
       train_dataset eval_dataset eval_train_ratio t =
     (case set_train_data_loader train_dataset t of
        (s1, Inl e) \<Rightarrow> ([Set_train_data_loader train_dataset], s1, Inl e)
      | (s1, Inr u) \<Rightarrow>
         (case set_eval_data_loader eval_dataset eval_train_ratio s1 of
            (s2, Inl e) \<Rightarrow>
              ([Set_train_data_loader train_dataset,
                Set_eval_data_loader eval_dataset eval_train_ratio], s2, Inl e)
          | (s2, Inr u) \<Rightarrow>
             (case load_checkpoint s2 of
                (s3, Inl e) \<Rightarrow>
                  ([Set_train_data_loader train_dataset,
                    Set_eval_data_loader eval_dataset eval_train_ratio, Load_checkpoint],
                   s3, Inl e)
              | (s3, Inr u) \<Rightarrow>
                  ([Set_train_data_loader train_dataset,
                    Set_eval_data_loader eval_dataset eval_train_ratio, Load_checkpoint, Run],
                   run s3))))"
  by (simp add: fit_def prog_defs split: prod.splits sum.splits)

text \<open>
  C10. For every invocation, the calls \<^verbatim>\<open>fit\<close> makes are a beginning of the
  sequence: set the train data loader, set the eval data loader with the given ratio, load
  the checkpoint, run; it always makes the first. It calls \<^verbatim>\<open>run\<close> only after
  the three others have returned, on the trainer they left, and when none of the three
  raises it makes all four calls and ends as \<^verbatim>\<open>run\<close> ends.
\<close>

theorem fit_order:
  fixes t :: 's and train_dataset :: 'd and eval_dataset :: "'d option"
    and eval_train_ratio :: int
    and set_train_data_loader :: "'d \<Rightarrow> 's \<Rightarrow> 's \<times> (error + unit)"
    and set_eval_data_loader :: "'d option \<Rightarrow> int \<Rightarrow> 's \<Rightarrow> 's \<times> (error + unit)"
    and load_checkpoint :: "'s \<Rightarrow> 's \<times> (error + unit)"
    and run :: "'s \<Rightarrow> 's \<times> (error + unit)"
  defines "r \<equiv> fit set_train_data_loader set_eval_data_loader load_checkpoint run
                   train_dataset eval_dataset eval_train_ratio t"
    and "order \<equiv> [Set_train_data_loader train_dataset,
                     Set_eval_data_loader eval_dataset eval_train_ratio, Load_checkpoint, Run]"
  shows "prefix (calls r) order
       \<and> take 1 (calls r) = [Set_train_data_loader train_dataset]
       \<and> (Run \<in> set (calls r) \<longrightarrow>
            calls r = order \<and>
            (\<exists>s1 s2 s3.
               set_train_data_loader train_dataset t = (s1, Inr ()) \<and>
               set_eval_data_loader eval_dataset eval_train_ratio s1 = (s2, Inr ()) \<and>
               load_checkpoint s2 = (s3, Inr ()) \<and>
               final r = fst (run s3) \<and> outcome r = snd (run s3)))
       \<and> (\<forall>s1 s2 s3.
            set_train_data_loader train_dataset t = (s1, Inr ()) \<longrightarrow>
            set_eval_data_loader eval_dataset eval_train_ratio s1 = (s2, Inr ()) \<longrightarrow>
            load_checkpoint s2 = (s3, Inr ()) \<longrightarrow>
            r = (order, run s3))"
  unfolding r_def order_def fit_unfold
  by (auto simp add: calls_def final_def outcome_def split: prod.splits sum.splits)

theorem fit_order_witness:
  "fit (\<lambda>d s. (s @ [d], Inr ())) (\<lambda>d k s. (s @ [the d + nat k], Inr ()))
       (\<lambda>s. (s @ [7], Inr ())) (\<lambda>s. (s @ [8], Inr ())) (1::nat) (Some 2) 3 []
     = ([Set_train_data_loader 1, Set_eval_data_loader (Some 2) 3, Load_checkpoint, Run],
        [1, 5, 7, 8], Inr ())
   \<and> calls (fit (\<lambda>d s. (s @ [d], Inr ())) (\<lambda>d k s. (s @ [the d + nat k], Inr ()))
       (\<lambda>s. (s, Inl (Raised ''no checkpoint''))) (\<lambda>s. (s @ [8], Inr ())) (1::nat) (Some 2) 3 [])
     = [Set_train_data_loader 1, Set_eval_data_loader (Some 2) 3, Load_checkpoint]"
proof -
  let ?stl = "\<lambda>(d::nat) s. (s @ [d], Inr ()) :: nat list \<times> (error + unit)"
  let ?sel = "\<lambda>(d::nat option) (k::int) s. (s @ [the d + nat k], Inr ()) :: nat list \<times> (error + unit)"
  let ?load = "\<lambda>s. (s @ [7], Inr ()) :: nat list \<times> (error + unit)"
  let ?fail = "\<lambda>s. (s, Inl (Raised ''no checkpoint'')) :: nat list \<times> (error + unit)"
  let ?run = "\<lambda>s. (s @ [8], Inr ()) :: nat list \<times> (error + unit)"
  note a = fit_order [where set_train_data_loader = ?stl and set_eval_data_loader = ?sel
      and load_checkpoint = ?load and run = ?run and train_dataset = 1
      and eval_dataset = "Some 2" and eval_train_ratio = 3 and t = "[]"]
  from a have 1: "fit ?stl ?sel ?load ?run 1 (Some 2) 3 []
     = ([Set_train_data_loader 1, Set_eval_data_loader (Some 2) 3, Load_checkpoint, Run],
        [1, 5, 7, 8], Inr ())"
    by simp
  have 2: "calls (fit ?stl ?sel ?fail ?run 1 (Some 2) 3 [])
     = [Set_train_data_loader 1, Set_eval_data_loader (Some 2) 3, Load_checkpoint]"
    by (simp add: fit_unfold calls_def)
  show ?thesis using 1 2 by simp
qed

section \<open>compile\<close>

lemma wrapped_differs: "LossScaleOptimizer got spec scale \<noteq> got"
  by (induction got arbitrary: spec scale) simp_all

lemma compile_unfold:
  "compile optimizers_get create_checkpoint_manager model_arg optimizer_arg max_to_keep t =
     (case summary model_arg 100 of
        Inl e \<Rightarrow> ([Scope_enter, Summary 100, Scope_exit], t\<lparr>model := model_arg\<rparr>, Inl e)
      | Inr u \<Rightarrow>
         (case optimizers_get optimizer_arg of
            Inl e \<Rightarrow>
              ([Scope_enter, Summary 100, Optimizers_get optimizer_arg, Scope_exit],
               t\<lparr>model := model_arg\<rparr>, Inl e)
          | Inr got \<Rightarrow>
              (if is_mixed_precision t
               then
                 (case create_checkpoint_manager max_to_keep model_arg
                         (dynamic_LossScaleOptimizer got)
                         (t\<lparr>model := model_arg,
                            optimizer := dynamic_LossScaleOptimizer got\<rparr>) of
                    (s, r) \<Rightarrow>
                      ([Scope_enter, Summary 100, Optimizers_get optimizer_arg,
                        New_LossScaleOptimizer got ''dynamic'', Scope_exit,
                        Create_checkpoint_manager max_to_keep model_arg
                          (dynamic_LossScaleOptimizer got)], s, r))
               else
                 (case create_checkpoint_manager max_to_keep model_arg got
                         (t\<lparr>model := model_arg, optimizer := got\<rparr>) of
                    (s, r) \<Rightarrow>
                      ([Scope_enter, Summary 100, Optimizers_get optimizer_arg, Scope_exit,
                        Create_checkpoint_manager max_to_keep model_arg got], s, r)))))"
  by (simp add: compile_def with_scope_def prog_defs split: prod.splits sum.splits)

text \<open>
  C4. When \<^verbatim>\<open>summary\<close> and \<^verbatim>\<open>tf.keras.optimizers.get\<close> return,
  \<^verbatim>\<open>compile\<close> sets the optimizer of the trainer to the dynamic
  \<^verbatim>\<open>LossScaleOptimizer\<close> around the optimizer it got if
  \<^verbatim>\<open>is_mixed_precision\<close> is set, and to the optimizer it got, unwrapped,
  otherwise; it wraps if and only if the flag is set. In both cases it then, outside the
  scope of the strategy, creates the checkpoint manager with the given
  \<^verbatim>\<open>max_to_keep\<close>, the model and that optimizer, on a trainer that holds
  them.
\<close>

theorem compile_wraps_optimizer:
  fixes t :: "('f, 'p, 'l, 'o, 'b) trainer"
    and optimizers_get :: "'c \<Rightarrow> error + 'o optimizer"
    and create_checkpoint_manager :: "int \<Rightarrow> ('f, 'p, 'l) transducer \<Rightarrow> 'o optimizer \<Rightarrow>
      ('f, 'p, 'l, 'o, 'b) trainer \<Rightarrow> ('f, 'p, 'l, 'o, 'b) trainer \<times> (error + unit)"
    and model_arg :: "('f, 'p, 'l) transducer" and optimizer_arg :: 'c and max_to_keep :: int
    and got :: "'o optimizer"
  defines "opt \<equiv> (if is_mixed_precision t then dynamic_LossScaleOptimizer got else got)"
  defines "r \<equiv> compile optimizers_get create_checkpoint_manager model_arg optimizer_arg
                   max_to_keep t"
  assumes s: "summary model_arg 100 = Inr ()"
    and g: "optimizers_get optimizer_arg = Inr got"
  shows "calls r =
           [Scope_enter, Summary 100, Optimizers_get optimizer_arg] @
           (if is_mixed_precision t then [New_LossScaleOptimizer got ''dynamic''] else []) @
           [Scope_exit, Create_checkpoint_manager max_to_keep model_arg opt]
       \<and> final r = fst (create_checkpoint_manager max_to_keep model_arg opt
                          (t\<lparr>model := model_arg, optimizer := opt\<rparr>))
       \<and> outcome r = snd (create_checkpoint_manager max_to_keep model_arg opt
                            (t\<lparr>model := model_arg, optimizer := opt\<rparr>))
       \<and> (opt = dynamic_LossScaleOptimizer got \<longleftrightarrow> is_mixed_precision t)
       \<and> (opt = got \<longleftrightarrow> \<not> is_mixed_precision t)
       \<and> ((\<forall>k m o' s. optimizer (fst (create_checkpoint_manager k m o' s)) = optimizer s) \<longrightarrow>
            optimizer (final r) = opt)"
proof (cases "is_mixed_precision t")
  case True
  then show ?thesis
    using s g unfolding opt_def r_def
    by (simp add: compile_unfold calls_def final_def outcome_def wrapped_differs
        dynamic_LossScaleOptimizer_def split: prod.splits)
next
  case False
  then show ?thesis
    using s g wrapped_differs [of got "''dynamic''" "2 ^ 15"] unfolding opt_def r_def
    by (auto simp add: compile_unfold calls_def final_def outcome_def
        dynamic_LossScaleOptimizer_def split: prod.splits)
qed

theorem compile_wraps_optimizer_witness:
  "optimizer (final (compile (\<lambda>c. Inr (Keras ())) (\<lambda>k m o' s. (s\<lparr>base := nat k\<rparr>, Inr ()))
       example_model ''adam'' 10 mixed_trainer))
     = LossScaleOptimizer (Keras ()) ''dynamic'' 32768
   \<and> calls (compile (\<lambda>c. Inr (Keras ())) (\<lambda>k m o' s. (s\<lparr>base := nat k\<rparr>, Inr ()))
       example_model ''adam'' 10 mixed_trainer)
     = [Scope_enter, Summary 100, Optimizers_get ''adam'',
        New_LossScaleOptimizer (Keras ()) ''dynamic'', Scope_exit,
        Create_checkpoint_manager 10 example_model
          (LossScaleOptimizer (Keras ()) ''dynamic'' 32768)]
   \<and> base (final (compile (\<lambda>c. Inr (Keras ())) (\<lambda>k m o' s. (s\<lparr>base := nat k\<rparr>, Inr ()))
       example_model ''adam'' 10 mixed_trainer)) = 10"
proof -
  let ?get = "\<lambda>c :: string. Inr (Keras ()) :: error + unit optimizer"
  let ?ccm = "\<lambda>(k :: int) (m :: (nat list, nat list, real list) transducer) (o' :: unit optimizer)
      (s :: (nat list, nat list, real list, unit, nat) trainer).
      (s\<lparr>base := nat k\<rparr>, Inr ()) :: _ \<times> (error + unit)"
  have s: "summary example_model 100 = Inr ()"
    by (simp add: example_model_def)
  have g: "?get ''adam'' = Inr (Keras ())"
    by simp
  have m: "is_mixed_precision mixed_trainer"
    by (simp add: mixed_trainer_def)
  have f: "\<forall>k m o' s. optimizer (fst (?ccm k m o' s)) = optimizer s"
    by simp
  note c = compile_wraps_optimizer [where t = mixed_trainer and optimizers_get = ?get
      and create_checkpoint_manager = ?ccm and max_to_keep = 10, OF s g]
  show ?thesis
    using c f by (simp add: m dynamic_LossScaleOptimizer_def final_def)
qed

section \<open>The metrics\<close>

lemma update_state_Nil: "update_state m [] = m"
  by (simp add: update_state_def)

lemma update_state_append: "update_state (update_state m xs) ys = update_state m (xs @ ys)"
  by (simp add: update_state_def)

lemma update_state_none: "map_option (\<lambda>m. update_state m []) x = x"
  by (cases x) (simp_all add: update_state_Nil)

lemma update_state_twice:
  "map_option (\<lambda>m. update_state m ys) (map_option (\<lambda>m. update_state m xs) x)
     = map_option (\<lambda>m. update_state m (xs @ ys)) x"
  by (cases x) (simp_all add: update_state_append)

lemma Mean_updated:
  "total_sum (update_state (Mean n d) xs) = sum_list xs"
  "count_seen (update_state (Mean n d) xs) = length xs"
  "result (update_state (Mean n d) xs) = (if xs = [] then 0 else sum_list xs / real (length xs))"
  by (simp_all add: update_state_def Mean_def result_def)

lemma train_step_metric:
  "train_metrics (final (train_step rnnt_loss apply_gradients b t)) ''transducer_loss'' =
     map_option (\<lambda>m. update_state m (seen (calls (train_step rnnt_loss apply_gradients b t))))
       (train_metrics t ''transducer_loss'')"
  by (cases rule: train_step_cases [where t = t and b = b and rnnt_loss = rnnt_loss
        and apply_gradients = apply_gradients])
     (simp_all add: final_def calls_def seen_simps gradients_of_seen update_state_none)

lemma eval_step_metric:
  "eval_metrics (final (eval_step rnnt_loss b t)) ''transducer_loss'' =
     map_option (\<lambda>m. update_state m (seen (calls (eval_step rnnt_loss b t))))
       (eval_metrics t ''transducer_loss'')"
  by (cases rule: eval_step_cases [where t = t and b = b and rnnt_loss = rnnt_loss])
     (simp_all add: final_def calls_def seen_simps update_state_none)

lemma andthen_run:
  "m s = (cs, s', Inl e) \<Longrightarrow> andthen m f s = (cs, s', Inl e)"
  "m s = (cs, s', Inr a) \<Longrightarrow> f a s' = (cs', s'', r) \<Longrightarrow> andthen m f s = (cs @ cs', s'', r)"
  by (simp_all add: andthen_def)

lemma train_steps_metric:
  "train_metrics (final (train_steps rnnt_loss apply_gradients bs t)) ''transducer_loss'' =
     map_option (\<lambda>m. update_state m (seen (calls (train_steps rnnt_loss apply_gradients bs t))))
       (train_metrics t ''transducer_loss'')"
proof (induction bs arbitrary: t)
  case Nil
  show ?case
    by (simp add: returns_def final_def calls_def seen_simps update_state_none)
next
  case (Cons b bs)
  obtain cs t1 r1 where s: "train_step rnnt_loss apply_gradients b t = (cs, t1, r1)"
    using prod_cases3 by blast
  have m1: "train_metrics t1 ''transducer_loss'' =
      map_option (\<lambda>m. update_state m (seen cs)) (train_metrics t ''transducer_loss'')"
    using train_step_metric [of rnnt_loss apply_gradients b t] by (simp add: s final_def calls_def)
  show ?case
  proof (cases r1)
    case (Inl e)
    with s have "train_steps rnnt_loss apply_gradients (b # bs) t = (cs, t1, Inl e)"
      by (simp add: andthen_run(1))
    then show ?thesis
      using m1 by (simp add: final_def calls_def)
  next
    case (Inr u)
    obtain cs' t2 r2 where s': "train_steps rnnt_loss apply_gradients bs t1 = (cs', t2, r2)"
      using prod_cases3 by blast
    have m2: "train_metrics t2 ''transducer_loss'' =
        map_option (\<lambda>m. update_state m (seen cs')) (train_metrics t1 ''transducer_loss'')"
      using Cons.IH [of t1] by (simp add: s' final_def calls_def)
    from s Inr s' have "train_steps rnnt_loss apply_gradients (b # bs) t = (cs @ cs', t2, r2)"
      by (simp add: andthen_run(2))
    then show ?thesis
      using m1 m2 by (simp add: final_def calls_def seen_simps update_state_twice)
  qed
qed

lemma eval_steps_metric:
  "eval_metrics (final (eval_steps rnnt_loss bs t)) ''transducer_loss'' =
     map_option (\<lambda>m. update_state m (seen (calls (eval_steps rnnt_loss bs t))))
       (eval_metrics t ''transducer_loss'')"
proof (induction bs arbitrary: t)
  case Nil
  show ?case
    by (simp add: returns_def final_def calls_def seen_simps update_state_none)
next
  case (Cons b bs)
  obtain cs t1 r1 where s: "eval_step rnnt_loss b t = (cs, t1, r1)"
    using prod_cases3 by blast
  have m1: "eval_metrics t1 ''transducer_loss'' =
      map_option (\<lambda>m. update_state m (seen cs)) (eval_metrics t ''transducer_loss'')"
    using eval_step_metric [of rnnt_loss b t] by (simp add: s final_def calls_def)
  show ?case
  proof (cases r1)
    case (Inl e)
    with s have "eval_steps rnnt_loss (b # bs) t = (cs, t1, Inl e)"
      by (simp add: andthen_run(1))
    then show ?thesis
      using m1 by (simp add: final_def calls_def)
  next
    case (Inr u)
    obtain cs' t2 r2 where s': "eval_steps rnnt_loss bs t1 = (cs', t2, r2)"
      using prod_cases3 by blast
    have m2: "eval_metrics t2 ''transducer_loss'' =
        map_option (\<lambda>m. update_state m (seen cs')) (eval_metrics t1 ''transducer_loss'')"
      using Cons.IH [of t1] by (simp add: s' final_def calls_def)
    from s Inr s' have "eval_steps rnnt_loss (b # bs) t = (cs @ cs', t2, r2)"
      by (simp add: andthen_run(2))
    then show ?thesis
      using m1 m2 by (simp add: final_def calls_def seen_simps update_state_twice)
  qed
qed

lemma train_step_seen:
  assumes "outcome (train_step rnnt_loss apply_gradients b t) = Inr ()"
  shows "\<exists>logits logit_length per_train_loss.
           call (model t) (trainable_variables (model t)) (features b) (pred_inp b) True
             = Inr logits
         \<and> floordiv (input_length b) (time_reduction_factor (model t)) = Inr logit_length
         \<and> rnnt_loss logits (labels b) (label_length b) logit_length (blank (text_featurizer t))
             = Inr per_train_loss
         \<and> seen (calls (train_step rnnt_loss apply_gradients b t)) = map primal per_train_loss"
  using assms
  by (cases rule: train_step_cases [where t = t and b = b and rnnt_loss = rnnt_loss
        and apply_gradients = apply_gradients])
     (simp_all add: outcome_def calls_def seen_simps gradients_of_seen)

lemma eval_step_seen:
  assumes "outcome (eval_step rnnt_loss b t) = Inr ()"
  shows "\<exists>logits logit_length eval_loss.
           call (model t) (trainable_variables (model t)) (features b) (pred_inp b) False
             = Inr logits
         \<and> floordiv (input_length b) (time_reduction_factor (model t)) = Inr logit_length
         \<and> rnnt_loss logits (labels b) (label_length b) logit_length (blank (text_featurizer t))
             = Inr eval_loss
         \<and> seen (calls (eval_step rnnt_loss b t)) = map primal eval_loss"
  using assms
  by (cases rule: eval_step_cases [where t = t and b = b and rnnt_loss = rnnt_loss])
     (simp_all add: outcome_def calls_def seen_simps)

text \<open>
  C6. \<^verbatim>\<open>set_train_metrics\<close> and \<^verbatim>\<open>set_eval_metrics\<close> each install one
  metric, a running mean of type float32 under the key \<^verbatim>\<open>"transducer_loss"\<close>. A
  train step that returns has updated the train metric with the per-example losses the loss
  kernel returned (not their average), and an eval step that returns has updated the eval
  metric with its per-example losses. After any number of steps on freshly installed
  metrics, the sum and the count the metric holds are the sum and the number of all values
  the steps updated it with, so that its result is their mean.
\<close>

theorem metrics_hold_the_mean:
  fixes t :: "('f, 'p, 'l, 'o, 'b) trainer" and bs :: "('f, 'p) batch list"
    and rnnt_loss :: "'l \<Rightarrow> int list list \<Rightarrow> int list \<Rightarrow> int list \<Rightarrow> int \<Rightarrow> error + dual list"
    and apply_gradients :: "'o optimizer \<Rightarrow> (real \<times> real) list \<Rightarrow> error + 'o optimizer \<times> real list"
  defines "trained \<equiv> train_steps rnnt_loss apply_gradients bs (set_train_metrics t)"
    and "evaluated \<equiv> eval_steps rnnt_loss bs (set_eval_metrics t)"
  shows "train_metrics (set_train_metrics t)
           = [''transducer_loss'' \<mapsto> Mean ''train_transducer_loss'' Float32]
       \<and> eval_metrics (set_eval_metrics t)
           = [''transducer_loss'' \<mapsto> Mean ''eval_transducer_loss'' Float32]
       \<and> (outcome (train_step rnnt_loss apply_gradients b t) = Inr () \<longrightarrow>
            (\<exists>logits logit_length per_train_loss.
               call (model t) (trainable_variables (model t)) (features b) (pred_inp b) True
                 = Inr logits
             \<and> floordiv (input_length b) (time_reduction_factor (model t)) = Inr logit_length
             \<and> rnnt_loss logits (labels b) (label_length b) logit_length
                  (blank (text_featurizer t)) = Inr per_train_loss
             \<and> seen (calls (train_step rnnt_loss apply_gradients b t))
                 = map primal per_train_loss))
       \<and> (outcome (eval_step rnnt_loss b t) = Inr () \<longrightarrow>
            (\<exists>logits logit_length eval_loss.
               call (model t) (trainable_variables (model t)) (features b) (pred_inp b) False
                 = Inr logits
             \<and> floordiv (input_length b) (time_reduction_factor (model t)) = Inr logit_length
             \<and> rnnt_loss logits (labels b) (label_length b) logit_length
                  (blank (text_featurizer t)) = Inr eval_loss
             \<and> seen (calls (eval_step rnnt_loss b t)) = map primal eval_loss))
       \<and> train_metrics (final (train_step rnnt_loss apply_gradients b t)) ''transducer_loss''
           = map_option (\<lambda>m. update_state m (seen (calls (train_step rnnt_loss apply_gradients b t))))
               (train_metrics t ''transducer_loss'')
       \<and> eval_metrics (final (eval_step rnnt_loss b t)) ''transducer_loss''
           = map_option (\<lambda>m. update_state m (seen (calls (eval_step rnnt_loss b t))))
               (eval_metrics t ''transducer_loss'')
       \<and> map_option total_sum (train_metrics (final trained) ''transducer_loss'')
           = Some (sum_list (seen (calls trained)))
       \<and> map_option count_seen (train_metrics (final trained) ''transducer_loss'')
           = Some (length (seen (calls trained)))
       \<and> map_option result (train_metrics (final trained) ''transducer_loss'')
           = Some (if seen (calls trained) = [] then 0
                   else sum_list (seen (calls trained)) / real (length (seen (calls trained))))
       \<and> map_option total_sum (eval_metrics (final evaluated) ''transducer_loss'')
           = Some (sum_list (seen (calls evaluated)))
       \<and> map_option count_seen (eval_metrics (final evaluated) ''transducer_loss'')
           = Some (length (seen (calls evaluated)))
       \<and> map_option result (eval_metrics (final evaluated) ''transducer_loss'')
           = Some (if seen (calls evaluated) = [] then 0
                   else sum_list (seen (calls evaluated)) / real (length (seen (calls evaluated))))"
proof -
  have tr: "train_metrics (final trained) ''transducer_loss''
      = Some (update_state (Mean ''train_transducer_loss'' Float32) (seen (calls trained)))"
    unfolding trained_def train_steps_metric by (simp add: set_train_metrics_def)
  have ev: "eval_metrics (final evaluated) ''transducer_loss''
      = Some (update_state (Mean ''eval_transducer_loss'' Float32) (seen (calls evaluated)))"
    unfolding evaluated_def eval_steps_metric by (simp add: set_eval_metrics_def)
  have a: "train_metrics (set_train_metrics t)
           = [''transducer_loss'' \<mapsto> Mean ''train_transducer_loss'' Float32]"
    and b: "eval_metrics (set_eval_metrics t)
           = [''transducer_loss'' \<mapsto> Mean ''eval_transducer_loss'' Float32]"
    by (simp_all add: set_train_metrics_def set_eval_metrics_def)
  show ?thesis
    using a b train_step_seen [of rnnt_loss apply_gradients b t] eval_step_seen [of rnnt_loss b t]
      train_step_metric [of rnnt_loss apply_gradients b t] eval_step_metric [of rnnt_loss b t]
    by (simp add: tr ev Mean_updated)
qed

theorem metrics_hold_the_mean_witness:
  "outcome (train_step example_rnnt_loss example_sgd example_batch example_trainer) = Inr ()
   \<and> seen (calls (train_step example_rnnt_loss example_sgd example_batch example_trainer)) = [1, 2]
   \<and> outcome (eval_step example_rnnt_loss example_batch example_trainer) = Inr ()
   \<and> seen (calls (eval_step example_rnnt_loss example_batch example_trainer)) = [1, 2]
   \<and> map_option result (train_metrics (final (train_steps example_rnnt_loss example_sgd
          [example_batch, example_batch] (set_train_metrics example_trainer))) ''transducer_loss'')
       = Some (3 / 2)
   \<and> map_option result (eval_metrics (final (eval_steps example_rnnt_loss
          [example_batch, example_batch] (set_eval_metrics example_trainer))) ''transducer_loss'')
       = Some (3 / 2)"
proof -
  have ot: "outcome (train_step example_rnnt_loss example_sgd example_batch example_trainer) = Inr ()"
    and st: "seen (calls (train_step example_rnnt_loss example_sgd example_batch example_trainer))
       = [1, 2]"
    by (simp_all add: example_train_step outcome_def calls_def seen_def)
  have oe: "outcome (eval_step example_rnnt_loss example_batch example_trainer) = Inr ()"
    and se: "seen (calls (eval_step example_rnnt_loss example_batch example_trainer)) = [1, 2]"
    by (simp_all add: example_eval_step outcome_def calls_def seen_def)
  have sts: "seen (calls (train_steps example_rnnt_loss example_sgd
          [example_batch, example_batch] (set_train_metrics example_trainer))) = [1, 2, 1, 2]"
    by (simp add: train_step_def train_step_body_def tf_function_def gradients_of_def update_train_metric_def prog_defs ex_defs
        calls_def seen_def floordiv_def int32_def compute_average_loss_def tape_gradient_def dual_div_def
        reduce_sum_def update_state_def)
  have ses: "seen (calls (eval_steps example_rnnt_loss
          [example_batch, example_batch] (set_eval_metrics example_trainer))) = [1, 2, 1, 2]"
    by (simp add: eval_step_def eval_step_body_def tf_function_def update_eval_metric_def prog_defs ex_defs
        calls_def seen_def floordiv_def int32_def update_state_def)
  note c = metrics_hold_the_mean [where t = example_trainer and b = example_batch
      and bs = "[example_batch, example_batch]" and rnnt_loss = example_rnnt_loss
      and apply_gradients = example_sgd]
  have "map_option result (train_metrics (final (train_steps example_rnnt_loss example_sgd
          [example_batch, example_batch] (set_train_metrics example_trainer))) ''transducer_loss'')
       = Some (3 / 2)"
    using c [THEN conjunct2, THEN conjunct2, THEN conjunct2, THEN conjunct2, THEN conjunct2, THEN conjunct2, THEN conjunct2, THEN conjunct2, THEN conjunct1, unfolded sts] by simp
  moreover have "map_option result (eval_metrics (final (eval_steps example_rnnt_loss
          [example_batch, example_batch] (set_eval_metrics example_trainer))) ''transducer_loss'')
       = Some (3 / 2)"
    using c [THEN conjunct2, THEN conjunct2, THEN conjunct2, THEN conjunct2, THEN conjunct2, THEN conjunct2, THEN conjunct2, THEN conjunct2, THEN conjunct2, THEN conjunct2, THEN conjunct2, unfolded ses] by simp
  ultimately show ?thesis
    using ot st oe se by simp
qed

section \<open>Exceptions\<close>


lemma floordiv_fails: "floordiv xs d = Inl e \<Longrightarrow> e = ZeroDivisionError \<and> int32 d = 0"
  by (auto simp add: floordiv_def split: if_splits)












end
